theory Spec2Isabelle
  imports Complex_Main "HOL-Library.Log_Nat"
begin

section \<open>Python values, exceptions and dictionaries\<close>

text \<open>
  The service is Python. A raised exception is the left summand of a sum type, so every
  \<^verbatim>\<open>raise\<close> and every \<^verbatim>\<open>try/except\<close> of the source is a branch here.
  \<open>ServiceError\<close> stands for whatever the Google Maps client raises (ApiError,
  Timeout, TransportError): the source catches all of them alike with
  \<^verbatim>\<open>except Exception\<close>.
\<close>

datatype exn =
  AttributeError | KeyError | IndexError | TypeError | ValueError | OverflowError
| ServiceError

fun bindE :: "exn + 'a \<Rightarrow> ('a \<Rightarrow> exn + 'b) \<Rightarrow> exn + 'b" where
  "bindE (Inl e) f = Inl e"
| "bindE (Inr x) f = f x"

text \<open>
  A feature dictionary holds numbers (Python \<^verbatim>\<open>int\<close> and \<^verbatim>\<open>float\<close>, which compare
  equal when they denote the same number) and strings. A number that enters the service
  (a request field, a table entry, a JSON number) is finite and is modelled by the real it
  denotes; what the service computes from such numbers may be infinite or NaN and has the
  type \<open>float64\<close> below. An absent key is \<open>None\<close>.
\<close>

datatype pyval = Num real | Str string

type_synonym features = "string \<rightharpoonup> pyval"

text \<open>Python truthiness of a looked-up value (\<^verbatim>\<open>features.get(k)\<close> is None when absent).\<close>

fun truthy :: "pyval option \<Rightarrow> bool" where
  "truthy None = False"
| "truthy (Some (Num r)) = (r \<noteq> 0)"
| "truthy (Some (Str s)) = (s \<noteq> [])"

section \<open>Floating-point arithmetic\<close>

text \<open>
  A Python \<^verbatim>\<open>float\<close> and a NumPy \<^verbatim>\<open>float64\<close> are IEEE 754 binary64 numbers:
  \<^verbatim>\<open>+\<close>, \<^verbatim>\<open>-\<close>, \<^verbatim>\<open>*\<close>, \<^verbatim>\<open>/\<close> return the exact result rounded to nearest, ties to
  the even significand. \<open>rnd\<close> is that rounding on the reals: 53 significant bits from
  \<open>2\<^sup>-\<^sup>1\<^sup>0\<^sup>2\<^sup>2\<close> upwards, and the fixed spacing \<open>2\<^sup>-\<^sup>1\<^sup>0\<^sup>7\<^sup>4\<close> of the subnormal numbers below
  (gradual underflow, down to zero). A decimal literal of the source such as \<^verbatim>\<open>1.3\<close> is
  the float \<open>rnd 1.3\<close>; small integers are floats already.
\<close>

definition rne :: "real \<Rightarrow> int" where
  "rne x =
     (let f = \<lfloor>x\<rfloor>; d = x - of_int f
      in if d < 1 / 2 then f
         else if 1 / 2 < d then f + 1
         else if even f then f else f + 1)"

text \<open>The binary exponent \<open>e\<close> of \<open>x \<noteq> 0\<close>, with \<open>2\<^sup>e \<le> \<bar>x\<bar> < 2\<^sup>e\<^sup>+\<^sup>1\<close>, from bit lengths.\<close>

definition expo :: "real \<Rightarrow> int" where
  "expo x =
     (if 1 \<le> \<bar>x\<bar> then bitlen \<lfloor>\<bar>x\<bar>\<rfloor> - 1
      else - bitlen (\<lceil>1 / \<bar>x\<bar>\<rceil> - 1))"

definition pow2 :: "int \<Rightarrow> real" where
  "pow2 e = (if 0 \<le> e then 2 ^ nat e else 1 / 2 ^ nat (- e))"

definition rnd :: "real \<Rightarrow> real" where
  "rnd x =
     (if x = 0 then 0
      else let e = max (expo x) (- 1022)
           in of_int (rne (x * pow2 (52 - e))) * pow2 (e - 52))"

text \<open>
  The values of a binary64 variable: the finite ones, the two infinities and NaN. A
  rounded result of magnitude \<open>2\<^sup>1\<^sup>0\<^sup>2\<^sup>4\<close> or more overflows to the infinity of its sign.
  The sign of a zero is not modelled: every zero is \<open>Fin 0\<close>.
\<close>

datatype float64 = Fin real | PInf | NInf | NaN

definition to_float :: "real \<Rightarrow> float64" where
  "to_float x =
     (let r = rnd x
      in if pow2 1024 \<le> \<bar>r\<bar> then (if 0 < r then PInf else NInf) else Fin r)"

fun fneg :: "float64 \<Rightarrow> float64" where
  "fneg (Fin x) = Fin (- x)"
| "fneg PInf = NInf"
| "fneg NInf = PInf"
| "fneg NaN = NaN"

text \<open>Neither Python nor NumPy raises on an overflowing \<^verbatim>\<open>+\<close>, \<^verbatim>\<open>-\<close> or \<^verbatim>\<open>*\<close> of floats.\<close>

fun fadd :: "float64 \<Rightarrow> float64 \<Rightarrow> float64" where
  "fadd (Fin x) (Fin y) = to_float (x + y)"
| "fadd NaN b = NaN"
| "fadd a NaN = NaN"
| "fadd PInf NInf = NaN"
| "fadd NInf PInf = NaN"
| "fadd PInf b = PInf"
| "fadd a PInf = PInf"
| "fadd NInf b = NInf"
| "fadd a NInf = NInf"

definition fsub :: "float64 \<Rightarrow> float64 \<Rightarrow> float64" where
  "fsub a b = fadd a (fneg b)"

fun fmul :: "float64 \<Rightarrow> float64 \<Rightarrow> float64" where
  "fmul (Fin x) (Fin y) = to_float (x * y)"
| "fmul NaN b = NaN"
| "fmul a NaN = NaN"
| "fmul (Fin x) b = (if x = 0 then NaN else if 0 < x then b else fneg b)"
| "fmul a (Fin y) = (if y = 0 then NaN else if 0 < y then a else fneg a)"
| "fmul PInf b = b"
| "fmul NInf b = fneg b"

text \<open>
  Division of NumPy scalars, which raises nothing: a zero divisor gives an infinity, or NaN
  for \<open>0 / 0\<close>, and a quotient too large for the format gives an infinity.
\<close>

fun fdiv :: "float64 \<Rightarrow> float64 \<Rightarrow> float64" where
  "fdiv (Fin x) (Fin y) =
     (if y = 0 then (if 0 < x then PInf else if x < 0 then NInf else NaN)
      else to_float (x / y))"
| "fdiv NaN b = NaN"
| "fdiv a NaN = NaN"
| "fdiv (Fin x) b = Fin 0"
| "fdiv a (Fin y) = (if 0 \<le> y then a else fneg a)"
| "fdiv a b = NaN"

text \<open>\<^verbatim>\<open>a < b\<close> on floats, false whenever an operand is NaN, and Python's \<^verbatim>\<open>min(a, b)\<close>,
  which returns \<open>b\<close> only if \<^verbatim>\<open>b < a\<close>.\<close>

fun fless :: "float64 \<Rightarrow> float64 \<Rightarrow> bool" where
  "fless (Fin x) (Fin y) = (x < y)"
| "fless NaN b = False"
| "fless a NaN = False"
| "fless a NInf = False"
| "fless NInf b = True"
| "fless PInf b = False"
| "fless a PInf = True"

definition py_min :: "float64 \<Rightarrow> float64 \<Rightarrow> float64" where
  "py_min a b = (if fless b a then b else a)"

section \<open>JSON answers of the mapping service\<close>

datatype json =
  JNull | JBool bool | JNum real | JStr string | JList "json list" | JObj "(string \<times> json) list"

text \<open>\<^verbatim>\<open>v[key]\<close> and \<^verbatim>\<open>v[i]\<close> on a decoded JSON value, with the exceptions Python raises.\<close>

fun jget :: "json \<Rightarrow> string \<Rightarrow> exn + json" where
  "jget (JObj kvs) k = (case map_of kvs k of None \<Rightarrow> Inl KeyError | Some v \<Rightarrow> Inr v)"
| "jget (JStr s) k = Inl TypeError"
| "jget (JList xs) k = Inl TypeError"
| "jget (JNum r) k = Inl TypeError"
| "jget (JBool b) k = Inl TypeError"
| "jget JNull k = Inl TypeError"

fun jfirst :: "json \<Rightarrow> exn + json" where
  "jfirst (JList []) = Inl IndexError"
| "jfirst (JList (x # xs)) = Inr x"
| "jfirst (JStr []) = Inl IndexError"
| "jfirst (JStr (c # cs)) = Inr (JStr [c])"
| "jfirst (JObj kvs) = Inl KeyError"
| "jfirst (JNum r) = Inl TypeError"
| "jfirst (JBool b) = Inl TypeError"
| "jfirst JNull = Inl TypeError"

fun jtruthy :: "json \<Rightarrow> bool" where
  "jtruthy JNull = False"
| "jtruthy (JBool b) = b"
| "jtruthy (JNum r) = (r \<noteq> 0)"
| "jtruthy (JStr s) = (s \<noteq> [])"
| "jtruthy (JList xs) = (xs \<noteq> [])"
| "jtruthy (JObj kvs) = (kvs \<noteq> [])"

text \<open>A JSON value used as a number (\<^verbatim>\<open>bool\<close> is a subclass of \<^verbatim>\<open>int\<close>).\<close>

fun jnumber :: "json \<Rightarrow> exn + real" where
  "jnumber (JNum r) = Inr r"
| "jnumber (JBool b) = Inr (if b then 1 else 0)"
| "jnumber (JStr s) = Inl TypeError"
| "jnumber (JList xs) = Inl TypeError"
| "jnumber (JObj kvs) = Inl TypeError"
| "jnumber JNull = Inl TypeError"

section \<open>Feature engineer (features.py)\<close>

text \<open>
  The optional collaborator \<^verbatim>\<open>self.gmaps\<close>: a client is its two operations, each
  answering with decoded JSON or raising. The origin and destination, which the source
  formats into strings, are passed as coordinate pairs.
\<close>

record gmaps_client =
  distance_matrix :: "real \<times> real \<Rightarrow> real \<times> real \<Rightarrow> string \<Rightarrow> exn + json"
  places_nearby :: "real \<times> real \<Rightarrow> nat \<Rightarrow> string \<Rightarrow> exn + json"

definition land_type_map :: "string \<rightharpoonup> real" where
  "land_type_map = map_of
     [(''RESIDENTIAL'', 1), (''COMMERCIAL'', 2), (''AGRICULTURAL'', 3), (''INDUSTRIAL'', 4)]"

text \<open>The coordinates of the table are the floats its decimal literals denote.\<close>

definition city_centers :: "string \<rightharpoonup> real \<times> real" where
  "city_centers = map_of
     [(''Ernakulam'', (rnd 9.9312, rnd 76.2673)),
      (''Thiruvananthapuram'', (rnd 8.5241, rnd 76.9366)),
      (''Kozhikode'', (rnd 11.2588, rnd 75.7804)),
      (''Bangalore'', (rnd 12.9716, rnd 77.5946)),
      (''Chennai'', (rnd 13.0827, rnd 80.2707)),
      (''Mumbai'', (rnd 19.0760, rnd 72.8777)),
      (''Delhi'', (rnd 28.7041, rnd 77.1025))]"

text \<open>The arguments of \<^verbatim>\<open>create_features\<close>.\<close>

record property_attrs =
  area_sqft :: real
  latitude :: real
  longitude :: real
  district :: string
  state :: string
  land_type :: string
  pincode :: "string option"
  road_width :: "real option"
  electricity :: bool
  water_supply :: bool

subsection \<open>Great-circle distance\<close>

text \<open>
  \<^verbatim>\<open>_haversine_distance\<close> is float arithmetic throughout, and every operation of it is
  rounded here as the source rounds it. \<^verbatim>\<open>math.radians(x)\<close> is the product of \<open>x\<close> with
  the constant \<^verbatim>\<open>Py_MATH_PI / 180.0\<close> of CPython, where \<^verbatim>\<open>Py_MATH_PI\<close> is the literal
  \<^verbatim>\<open>3.14159265358979323846\<close>. \<^verbatim>\<open>math.sqrt\<close> is the correctly rounded square root of
  IEEE 754 and raises ValueError on a negative argument. \<^verbatim>\<open>sin\<close>, \<^verbatim>\<open>cos\<close> and
  \<^verbatim>\<open>atan2\<close> come from the C mathematics library, which no standard fixes bit for bit;
  they are taken correctly rounded, as is \<^verbatim>\<open>x ** 2\<close>, which CPython hands to the
  library's \<^verbatim>\<open>pow\<close>. The statements proved of the routine use no more of the library than
  its exact values at zero and its symmetry under negation. The magnitudes of the routine
  stay far from overflow (a coordinate is multiplied by a constant below \<open>1/50\<close>, and
  everything after the sine and cosine is bounded), so the routine is written on the reals
  with \<open>rnd\<close>.

  Over the reals the term \<open>a\<close> lies in \<open>[0, 1]\<close>. Rounded, it can exceed 1, and then
  \<^verbatim>\<open>1 - a\<close> is negative and the second square root raises.
\<close>

definition math_pi :: real where
  "math_pi = rnd 3.14159265358979323846"

definition deg_to_rad :: real where
  "deg_to_rad = rnd (math_pi / 180)"

definition radians :: "real \<Rightarrow> real" where
  "radians x = rnd (x * deg_to_rad)"

definition math_sin :: "real \<Rightarrow> real" where
  "math_sin x = rnd (sin x)"

definition math_cos :: "real \<Rightarrow> real" where
  "math_cos x = rnd (cos x)"

definition math_sqrt :: "real \<Rightarrow> exn + real" where
  "math_sqrt x = (if x < 0 then Inl ValueError else Inr (rnd (sqrt x)))"

text \<open>The angle of the point \<open>(x, y)\<close>, in \<open>(-\<pi>, \<pi>]\<close>.\<close>

definition atan2 :: "real \<Rightarrow> real \<Rightarrow> real" where
  "atan2 y x =
     (if 0 < x then arctan (y / x)
      else if x < 0 \<and> 0 \<le> y then arctan (y / x) + pi
      else if x < 0 \<and> y < 0 then arctan (y / x) - pi
      else if 0 < y then pi / 2
      else if y < 0 then - (pi / 2)
      else 0)"

definition math_atan2 :: "real \<Rightarrow> real \<Rightarrow> real" where
  "math_atan2 y x = rnd (atan2 y x)"

text \<open>\<^verbatim>\<open>x ** 2\<close> on a float.\<close>

definition squared :: "real \<Rightarrow> real" where
  "squared x = rnd (x * x)"

definition haversine_a :: "real \<Rightarrow> real \<Rightarrow> real \<Rightarrow> real \<Rightarrow> real" where
  "haversine_a lat1 lon1 lat2 lon2 =
     (let rlat1 = radians lat1; rlon1 = radians lon1;
          rlat2 = radians lat2; rlon2 = radians lon2;
          dlat = rnd (rlat2 - rlat1);
          dlon = rnd (rlon2 - rlon1)
      in rnd (squared (math_sin (rnd (dlat / 2))) +
              rnd (rnd (math_cos rlat1 * math_cos rlat2) *
                   squared (math_sin (rnd (dlon / 2))))))"

definition haversine_distance :: "real \<Rightarrow> real \<Rightarrow> real \<Rightarrow> real \<Rightarrow> exn + real" where
  "haversine_distance lat1 lon1 lat2 lon2 =
     (let a = haversine_a lat1 lon1 lat2 lon2
      in bindE (math_sqrt a) (\<lambda>sa.
         bindE (math_sqrt (rnd (1 - a))) (\<lambda>sb.
         let c = rnd (2 * math_atan2 sa sb)
         in Inr (rnd (6371 * c)))))"

subsection \<open>Distances without the mapping service\<close>

definition estimate_distances :: "real \<Rightarrow> real \<Rightarrow> string \<Rightarrow> exn + features" where
  "estimate_distances lat lng distr =
     (let city_center = (case city_centers distr of None \<Rightarrow> (lat, lng) | Some c \<Rightarrow> c)
      in bindE (haversine_distance lat lng (fst city_center) (snd city_center)) (\<lambda>distance_to_city.
         Inr [''distance_to_city'' \<mapsto> Num distance_to_city,
              ''distance_to_highway'' \<mapsto> Num 5,
              ''distance_to_metro'' \<mapsto> Num 10,
              ''distance_to_school'' \<mapsto> Num 2,
              ''distance_to_hospital'' \<mapsto> Num 3]))"

subsection \<open>Distances with the mapping service\<close>

text \<open>
  \<^verbatim>\<open>distance_m / 1000\<close>. A quotient of a finite float by 1000 is finite; only a Python
  \<^verbatim>\<open>int\<close> can be so large that the quotient is too large for a float, and then the
  division raises OverflowError.
\<close>

definition metres_to_km :: "real \<Rightarrow> exn + real" where
  "metres_to_km distance_m =
     (case to_float (distance_m / 1000) of
        Fin km \<Rightarrow> Inr km
      | PInf \<Rightarrow> Inl OverflowError
      | NInf \<Rightarrow> Inl OverflowError
      | NaN \<Rightarrow> Inl OverflowError)"

text \<open>The body of the \<^verbatim>\<open>try\<close> block of \<^verbatim>\<open>_calculate_distances\<close>, one step per helper.\<close>

definition city_distance ::
  "gmaps_client \<Rightarrow> real \<Rightarrow> real \<Rightarrow> real \<times> real \<Rightarrow> exn + real" where
  "city_distance g lat lng city_center =
     bindE (distance_matrix g (lat, lng) city_center ''driving'') (\<lambda>result.
     bindE (jget result ''rows'') (\<lambda>rows.
     bindE (jfirst rows) (\<lambda>row.
     bindE (jget row ''elements'') (\<lambda>elements.
     bindE (jfirst elements) (\<lambda>element.
     bindE (jget element ''status'') (\<lambda>status.
       if status = JStr ''OK''
       then bindE (jget element ''distance'') (\<lambda>d.
            bindE (jget d ''value'') (\<lambda>v.
            bindE (jnumber v) (\<lambda>distance_m. metres_to_km distance_m)))
       else haversine_distance lat lng (fst city_center) (snd city_center)))))))"

definition place_distance ::
  "gmaps_client \<Rightarrow> real \<Rightarrow> real \<Rightarrow> string \<Rightarrow> real \<Rightarrow> exn + real" where
  "place_distance g lat lng place_type dflt =
     bindE (places_nearby g (lat, lng) 5000 place_type) (\<lambda>nearby.
     bindE (jget nearby ''results'') (\<lambda>results.
       if jtruthy results
       then bindE (jfirst results) (\<lambda>r.
            bindE (jget r ''geometry'') (\<lambda>geometry.
            bindE (jget geometry ''location'') (\<lambda>loc.
            bindE (jget loc ''lat'') (\<lambda>jlat.
            bindE (jget loc ''lng'') (\<lambda>jlng.
            bindE (jnumber jlat) (\<lambda>plat.
            bindE (jnumber jlng) (\<lambda>plng.
            haversine_distance lat lng plat plng)))))))
       else Inr dflt))"

definition calculate_distances ::
  "gmaps_client \<Rightarrow> real \<Rightarrow> real \<Rightarrow> string \<Rightarrow> exn + features" where
  "calculate_distances g lat lng distr =
     (let city_center = (case city_centers distr of None \<Rightarrow> (lat, lng) | Some c \<Rightarrow> c);
          attempt =
            bindE (city_distance g lat lng city_center) (\<lambda>d_city.
            bindE (place_distance g lat lng ''school'' 5) (\<lambda>d_school.
            bindE (place_distance g lat lng ''hospital'' 3) (\<lambda>d_hospital.
            Inr [''distance_to_city'' \<mapsto> Num d_city,
                 ''distance_to_school'' \<mapsto> Num d_school,
                 ''distance_to_hospital'' \<mapsto> Num d_hospital])))
      in case attempt of
           Inl e \<Rightarrow> estimate_distances lat lng distr
         | Inr distances \<Rightarrow>
             Inr (distances(''distance_to_highway'' \<mapsto> Num 5, ''distance_to_metro'' \<mapsto> Num 10)))"

subsection \<open>The average-price prior and the feature vector\<close>

definition avg_prices :: "string \<rightharpoonup> (string \<rightharpoonup> real)" where
  "avg_prices = map_of
     [(''Kerala'', map_of [(''Ernakulam'', 2800), (''Thiruvananthapuram'', 2500),
                           (''Kozhikode'', 2200)]),
      (''Karnataka'', map_of [(''Bangalore'', 4200)]),
      (''Tamil Nadu'', map_of [(''Chennai'', 3800)])]"

definition get_avg_price_in_area :: "string \<Rightarrow> string \<Rightarrow> real" where
  "get_avg_price_in_area distr st =
     (case (case avg_prices st of None \<Rightarrow> Map.empty | Some m \<Rightarrow> m) distr of
        None \<Rightarrow> 2000 | Some p \<Rightarrow> p)"

text \<open>\<^verbatim>\<open>road_width or 6.0\<close>: Python's \<^verbatim>\<open>or\<close> yields the right operand when the left
  one is falsy, and both \<^verbatim>\<open>None\<close> and \<^verbatim>\<open>0.0\<close> are falsy.\<close>

definition road_width_or_default :: "real option \<Rightarrow> real" where
  "road_width_or_default rw =
     (case rw of None \<Rightarrow> 6 | Some w \<Rightarrow> if w = 0 then 6 else w)"

definition direct_features :: "property_attrs \<Rightarrow> features" where
  "direct_features a =
     [''area_sqft'' \<mapsto> Num (area_sqft a),
      ''latitude'' \<mapsto> Num (latitude a),
      ''longitude'' \<mapsto> Num (longitude a),
      ''land_type_encoded'' \<mapsto>
         Num (case land_type_map (land_type a) of None \<Rightarrow> 1 | Some c \<Rightarrow> c),
      ''road_width'' \<mapsto> Num (road_width_or_default (road_width a)),
      ''electricity'' \<mapsto> Num (if electricity a then 1 else 0),
      ''water_supply'' \<mapsto> Num (if water_supply a then 1 else 0),
      ''state'' \<mapsto> Str (state a),
      ''district'' \<mapsto> Str (district a)]"

definition create_features :: "gmaps_client option \<Rightarrow> property_attrs \<Rightarrow> exn + features" where
  "create_features gmaps a =
     (let feats = direct_features a;
          lat = latitude a; lng = longitude a; distr = district a;
          distances =
            (case gmaps of
               Some g \<Rightarrow>
                 (case calculate_distances g lat lng distr of
                    Inr d \<Rightarrow> Inr d
                  | Inl e \<Rightarrow> estimate_distances lat lng distr)
             | None \<Rightarrow> estimate_distances lat lng distr)
      in bindE distances (\<lambda>d.
         Inr ((feats ++ d)(''avg_price_in_area'' \<mapsto> Num (get_avg_price_in_area distr (state a))))))"

section \<open>Price estimator (model.py)\<close>

text \<open>
  The estimator state. \<open>Untrained\<close> is a scaler without the attribute \<^verbatim>\<open>mean_\<close>. The
  fitted scaler and the fitted regressor are scikit-learn objects loaded from disk; they
  are parameters here, each a function that may raise. The regressor answers with a NumPy
  \<^verbatim>\<open>float64\<close>.
\<close>

datatype estimator =
  Untrained
| Trained (scaler: "pyval list \<Rightarrow> exn + real list") (regressor: "real list \<Rightarrow> exn + float64")

record result =
  price :: float64
  price_per_sqft :: float64
  confidence :: float64
  price_min :: float64
  price_max :: float64
  factors :: "string \<rightharpoonup> string"

definition feature_names :: "string list" where
  "feature_names =
     [''area_sqft'', ''latitude'', ''longitude'',
      ''distance_to_city'', ''distance_to_highway'', ''distance_to_metro'',
      ''distance_to_school'', ''distance_to_hospital'',
      ''road_width'', ''electricity'', ''water_supply'',
      ''avg_price_in_area'', ''land_type_encoded'']"

definition feature_vector :: "features \<Rightarrow> pyval list" where
  "feature_vector f = map (\<lambda>name. case f name of None \<Rightarrow> Num 0 | Some v \<Rightarrow> v) feature_names"

text \<open>\<^verbatim>\<open>features.get(key, dflt) < bound\<close>; comparing a string with a number raises.\<close>

definition get_less :: "features \<Rightarrow> string \<Rightarrow> real \<Rightarrow> real \<Rightarrow> exn + bool" where
  "get_less f key dflt bound =
     (case f key of
        None \<Rightarrow> Inr (dflt < bound)
      | Some (Num r) \<Rightarrow> Inr (r < bound)
      | Some (Str s) \<Rightarrow> Inl TypeError)"

definition calculate_confidence :: "features \<Rightarrow> float64" where
  "calculate_confidence f =
     (let c0 = Fin (rnd 0.7);
          c1 = (if f ''distance_to_city'' \<noteq> None then fadd c0 (Fin (rnd 0.1)) else c0);
          c2 = (if f ''avg_price_in_area'' \<noteq> None then fadd c1 (Fin (rnd 0.15)) else c1)
      in py_min c2 (Fin (rnd 0.95)))"

definition analyze_factors :: "features \<Rightarrow> float64 \<Rightarrow> exn + (string \<rightharpoonup> string)" where
  "analyze_factors f predicted_price =
     bindE (get_less f ''distance_to_city'' 100 5) (\<lambda>close.
     bindE (if close then Inr False else get_less f ''distance_to_city'' 100 15) (\<lambda>moderate.
     bindE (get_less f ''distance_to_metro'' 100 2) (\<lambda>metro.
       let f1 = [''location'' \<mapsto>
                   (if close then ''high_value_area''
                    else if moderate then ''moderate_area'' else ''peripheral_area'')];
           f2 = (if metro then f1(''metro_access'' \<mapsto> ''excellent'') else f1);
           f3 = (if truthy (f ''electricity'') \<and> truthy (f ''water_supply'')
                 then f2(''infrastructure'' \<mapsto> ''well_developed'') else f2)
       in Inr f3)))"

text \<open>\<^verbatim>\<open>predicted_price / features['area_sqft']\<close>, the left operand a NumPy scalar.\<close>

definition np_divide :: "float64 \<Rightarrow> pyval option \<Rightarrow> exn + float64" where
  "np_divide p v =
     (case v of
        None \<Rightarrow> Inl KeyError
      | Some (Str s) \<Rightarrow> Inl TypeError
      | Some (Num a) \<Rightarrow> Inr (fdiv p (Fin a)))"

text \<open>The body of the \<^verbatim>\<open>try\<close> block of \<^verbatim>\<open>predict\<close>.\<close>

definition statistical :: "estimator \<Rightarrow> features \<Rightarrow> exn + result" where
  "statistical est f =
     (case est of
        Untrained \<Rightarrow> Inl AttributeError
      | Trained sc rg \<Rightarrow>
          bindE (sc (feature_vector f)) (\<lambda>scaled.
          bindE (rg scaled) (\<lambda>predicted_price.
            let conf = calculate_confidence f;
                price_range = fmul predicted_price (Fin (rnd 0.15))
            in bindE (analyze_factors f predicted_price) (\<lambda>key_factors.
               bindE (np_divide predicted_price (f ''area_sqft'')) (\<lambda>ppsf.
               Inr \<lparr>price = predicted_price,
                    price_per_sqft = ppsf,
                    confidence = conf,
                    price_min = fsub predicted_price price_range,
                    price_max = fadd predicted_price price_range,
                    factors = key_factors\<rparr>)))))"

definition base_prices :: "string \<rightharpoonup> (string \<rightharpoonup> real)" where
  "base_prices = map_of
     [(''Kerala'', map_of [(''Ernakulam'', 3000), (''Thiruvananthapuram'', 2800),
                           (''Kozhikode'', 2500)]),
      (''Karnataka'', map_of [(''Bangalore'', 4500), (''Mysore'', 2000)]),
      (''Tamil Nadu'', map_of [(''Chennai'', 4000), (''Coimbatore'', 2200)])]"

text \<open>\<^verbatim>\<open>base_prices.get(state, {}).get(district, 2000)\<close>, the keys read from the features
  with the defaults \<^verbatim>\<open>'Kerala'\<close> and \<^verbatim>\<open>'Ernakulam'\<close>. A number is no key of either table.\<close>

definition base_price :: "features \<Rightarrow> real" where
  "base_price f =
     (let st = (case f ''state'' of None \<Rightarrow> Str ''Kerala'' | Some v \<Rightarrow> v);
          di = (case f ''district'' of None \<Rightarrow> Str ''Ernakulam'' | Some v \<Rightarrow> v);
          by_district =
            (case st of
               Str s \<Rightarrow> (case base_prices s of None \<Rightarrow> Map.empty | Some m \<Rightarrow> m)
             | Num r \<Rightarrow> Map.empty)
      in case di of
           Str d \<Rightarrow> (case by_district d of None \<Rightarrow> 2000 | Some p \<Rightarrow> p)
         | Num r \<Rightarrow> 2000)"

text \<open>The base price after the proximity and infrastructure adjustments.\<close>

definition adjusted_base :: "features \<Rightarrow> exn + float64" where
  "adjusted_base f =
     bindE (get_less f ''distance_to_city'' 100 5) (\<lambda>near_city.
     bindE (get_less f ''distance_to_metro'' 100 2) (\<lambda>near_metro.
       let b0 = Fin (base_price f);
           b1 = (if near_city then fmul b0 (Fin (rnd 1.3)) else b0);
           b2 = (if near_metro then fmul b1 (Fin (rnd 1.2)) else b1);
           b3 = (if truthy (f ''electricity'') \<and> truthy (f ''water_supply'')
                 then fmul b2 (Fin (rnd 1.1)) else b2)
       in Inr b3))"

text \<open>
  \<^verbatim>\<open>_heuristic_prediction\<close>. With a string in the area slot the source raises TypeError
  too, at the product when the base price is a float by then and at
  \<^verbatim>\<open>predicted_price * 0.8\<close> otherwise.
\<close>

definition heuristic_prediction :: "features \<Rightarrow> exn + result" where
  "heuristic_prediction f =
     bindE (adjusted_base f) (\<lambda>b.
       case f ''area_sqft'' of
         None \<Rightarrow> Inl KeyError
       | Some (Str s) \<Rightarrow> Inl TypeError
       | Some (Num area) \<Rightarrow>
           (let predicted_price = fmul b (Fin area)
            in Inr \<lparr>price = predicted_price,
                    price_per_sqft = b,
                    confidence = Fin (rnd 0.6),
                    price_min = fmul predicted_price (Fin (rnd 0.8)),
                    price_max = fmul predicted_price (Fin (rnd 1.2)),
                    factors =
                      [''location'' \<mapsto> ''moderate_impact'',
                       ''infrastructure'' \<mapsto>
                          (if truthy (f ''electricity'') then ''positive''
                           else ''needs_improvement''),
                       ''note'' \<mapsto>
                          ''Prediction based on market averages (model training in progress)'']\<rparr>))"

definition predict :: "estimator \<Rightarrow> features \<Rightarrow> exn + result" where
  "predict est f =
     (case statistical est f of
        Inr r \<Rightarrow> Inr r
      | Inl e \<Rightarrow> heuristic_prediction f)"

section \<open>Vocabulary of the properties\<close>

text \<open>The five distance slots, all filled with numbers.\<close>

definition distance_dict :: "features \<Rightarrow> bool" where
  "distance_dict d \<longleftrightarrow>
     (\<exists>c hw m s h. d =
        [''distance_to_city'' \<mapsto> Num c, ''distance_to_highway'' \<mapsto> Num hw,
         ''distance_to_metro'' \<mapsto> Num m, ''distance_to_school'' \<mapsto> Num s,
         ''distance_to_hospital'' \<mapsto> Num h])"

text \<open>A slot that is present and numeric; a feature vector with all thirteen of them.\<close>

fun numeric_slot :: "pyval option \<Rightarrow> bool" where
  "numeric_slot (Some (Num r)) = True"
| "numeric_slot (Some (Str s)) = False"
| "numeric_slot None = False"

definition all_slots_numeric :: "features \<Rightarrow> bool" where
  "all_slots_numeric f = list_all (\<lambda>name. numeric_slot (f name)) feature_names"

text \<open>A mapping service whose every call raises.\<close>

definition every_call_fails :: "gmaps_client \<Rightarrow> bool" where
  "every_call_fails g \<longleftrightarrow>
     (\<forall>origin dest mode. isl (distance_matrix g origin dest mode)) \<and>
     (\<forall>loc radius ty. isl (places_nearby g loc radius ty))"

definition timeout_client :: gmaps_client where
  "timeout_client =
     \<lparr>distance_matrix = (\<lambda>origin dest mode. Inl ServiceError),
      places_nearby = (\<lambda>loc radius ty. Inl ServiceError)\<rparr>"

text \<open>Valid property attributes: a positive area and geographic coordinates.\<close>

definition valid_attributes :: "property_attrs \<Rightarrow> bool" where
  "valid_attributes a \<longleftrightarrow>
     0 < area_sqft a \<and> - 90 \<le> latitude a \<and> latitude a \<le> 90 \<and>
     - 180 \<le> longitude a \<and> longitude a \<le> 180"

text \<open>The request of the specification's scenario, at the Chennai entry of the table.\<close>

definition chennai_request :: property_attrs where
  "chennai_request =
     \<lparr>area_sqft = 1000, latitude = rnd 13.0827, longitude = rnd 80.2707,
      district = ''Chennai'', state = ''Tamil Nadu'', land_type = ''RESIDENTIAL'',
      pincode = None, road_width = None, electricity = True, water_supply = True\<rparr>"

text \<open>A trained estimator that scales nothing and always predicts \<open>p\<close>.\<close>

fun plain_number :: "pyval \<Rightarrow> exn + real" where
  "plain_number (Num r) = Inr r"
| "plain_number (Str s) = Inl ValueError"

fun unit_scaler :: "pyval list \<Rightarrow> exn + real list" where
  "unit_scaler [] = Inr []"
| "unit_scaler (v # vs) =
     bindE (plain_number v) (\<lambda>r. bindE (unit_scaler vs) (\<lambda>rs. Inr (r # rs)))"

definition constant_estimator :: "real \<Rightarrow> estimator" where
  "constant_estimator p = Trained unit_scaler (\<lambda>xs. Inr (Fin p))"

text \<open>The request path of \<^verbatim>\<open>app.py\<close>: engineer the features, then predict.\<close>

definition pipeline ::
  "gmaps_client option \<Rightarrow> estimator \<Rightarrow> property_attrs \<Rightarrow> exn + result" where
  "pipeline gmaps est a = bindE (create_features gmaps a) (predict est)"

text \<open>The feature vector of the scenario's request without a mapping service.\<close>

definition chennai_features :: features where
  "chennai_features =
     [''area_sqft'' \<mapsto> Num 1000,
      ''latitude'' \<mapsto> Num (rnd 13.0827), ''longitude'' \<mapsto> Num (rnd 80.2707),
      ''land_type_encoded'' \<mapsto> Num 1, ''road_width'' \<mapsto> Num 6,
      ''electricity'' \<mapsto> Num 1, ''water_supply'' \<mapsto> Num 1,
      ''state'' \<mapsto> Str ''Tamil Nadu'', ''district'' \<mapsto> Str ''Chennai'',
      ''distance_to_city'' \<mapsto> Num 0, ''distance_to_highway'' \<mapsto> Num 5,
      ''distance_to_metro'' \<mapsto> Num 10, ''distance_to_school'' \<mapsto> Num 2,
      ''distance_to_hospital'' \<mapsto> Num 3, ''avg_price_in_area'' \<mapsto> Num 3800]"

text \<open>
  The magnitudes at which the arithmetic of the two branches neither overflows nor
  underflows: from \<open>2\<^sup>-\<^sup>1\<^sup>0\<^sup>1\<^sup>9\<close>, so that 15 percent of the number is still a normal
  float, to \<open>2\<^sup>1\<^sup>0\<^sup>2\<^sup>3\<close>, so that 115 percent of it is still finite.
\<close>

definition in_range :: "real \<Rightarrow> bool" where
  "in_range x \<longleftrightarrow> pow2 (- 1019) \<le> \<bar>x\<bar> \<and> \<bar>x\<bar> \<le> pow2 1023"

text \<open>The scenario's feature vector with an area of \<open>2\<^sup>-\<^sup>1\<^sup>0\<^sup>1\<^sup>0\<close>, a positive float.\<close>

definition tiny_area_features :: features where
  "tiny_area_features = chennai_features(''area_sqft'' \<mapsto> Num (1 / 2 ^ 1010))"

text \<open>A feature vector with the area alone: no state, no district, no distances.\<close>

definition area_only_features :: features where
  "area_only_features = [''area_sqft'' \<mapsto> Num 1000]"

text \<open>
  A property in the Kozhikode district whose coordinates are next to the antipode of the
  district's entry in the table of city centres.
\<close>

definition antipode_request :: property_attrs where
  "antipode_request =
     \<lparr>area_sqft = 1000, latitude = rnd (- 11.2587999), longitude = rnd (- 104.219601),
      district = ''Kozhikode'', state = ''Kerala'', land_type = ''RESIDENTIAL'',
      pincode = None, road_width = None, electricity = True, water_supply = True\<rparr>"

section \<open>Binary64 rounding\<close>

lemma pow2_powr: "pow2 e = 2 powr of_int e"
  by (simp add: pow2_def powr_real_of_int inverse_eq_divide)

lemma pow2_pos: "0 < pow2 e"
  by (simp add: pow2_powr)

lemma pow2_add: "pow2 (a + b) = pow2 a * pow2 b"
  by (simp add: pow2_powr powr_add)

lemma pow2_inverse: "pow2 (52 - e) * pow2 (e - 52) = 1"
  using pow2_add [of "52 - e" "e - 52"] by (simp add: pow2_def)

lemma pow2_less_iff: "pow2 a < pow2 b \<longleftrightarrow> a < b"
  by (simp add: pow2_powr)

lemma pow2_nat: "pow2 (int n) = 2 ^ n"
  by (simp add: pow2_def)

lemma pow2_neg_nat: "pow2 (- int n) = 1 / 2 ^ n"
proof (cases n)
  case 0
  then show ?thesis by (simp add: pow2_def)
next
  case (Suc k)
  then have "nat (int n) = n" "\<not> 0 \<le> - int n" by simp_all
  then show ?thesis unfolding pow2_def by (simp only: if_False minus_minus)
qed

lemma expo_bounds:
  assumes "x \<noteq> 0"
  shows "pow2 (expo x) \<le> \<bar>x\<bar>" "\<bar>x\<bar> < pow2 (expo x + 1)"
proof -
  have "pow2 (expo x) \<le> \<bar>x\<bar> \<and> \<bar>x\<bar> < pow2 (expo x + 1)"
  proof (cases "1 \<le> \<bar>x\<bar>")
    case True
    define n where "n = nat \<lfloor>\<bar>x\<bar>\<rfloor>"
    define L where "L = floorlog 2 n"
    have fl: "1 \<le> \<lfloor>\<bar>x\<bar>\<rfloor>" using True by linarith
    then have rn: "real n = of_int \<lfloor>\<bar>x\<bar>\<rfloor>" unfolding n_def by simp
    have n: "0 < n" "real n \<le> \<bar>x\<bar>" "\<bar>x\<bar> < real n + 1"
      using fl unfolding rn by (simp_all add: n_def)
    have b: "2 ^ (L - 1) \<le> n" "n < 2 ^ L"
      using floorlog_bounds [of n 2] n(1) unfolding L_def by simp_all
    have L: "0 < L" using n(1) unfolding L_def floorlog_def by simp
    have e: "expo x = int (L - 1)"
      using True L unfolding expo_def L_def n_def bitlen_def by simp
    have "n + 1 \<le> 2 ^ L" using b(2) by simp
    then have "real (n + 1) \<le> real (2 ^ L)" by (rule of_nat_mono)
    then have "real n + 1 \<le> 2 ^ L" by simp
    moreover have "real (2 ^ (L - 1)) \<le> real n" using b(1) by (rule of_nat_mono)
    then have "(2::real) ^ (L - 1) \<le> real n" by simp
    moreover have "int (L - 1) + 1 = int L" using L by simp
    then have "pow2 (int (L - 1) + 1) = 2 ^ L" by (simp only: pow2_nat)
    moreover have "pow2 (int (L - 1)) = 2 ^ (L - 1)" by (rule pow2_nat)
    ultimately show ?thesis using n(2,3) unfolding e by linarith
  next
    case False
    define z where "z = 1 / \<bar>x\<bar>"
    define m where "m = nat (\<lceil>z\<rceil> - 1)"
    define L where "L = floorlog 2 m"
    have x: "0 < \<bar>x\<bar>" "\<bar>x\<bar> < 1" using assms False by simp_all
    then have z: "1 < z" unfolding z_def by simp
    then have c: "2 \<le> \<lceil>z\<rceil>" by linarith
    have rm: "real m = of_int \<lceil>z\<rceil> - 1" using c unfolding m_def by simp
    have m: "0 < m" "real m < z" "z \<le> real m + 1"
      using c unfolding rm by (simp_all add: m_def) linarith+
    have b: "2 ^ (L - 1) \<le> m" "m < 2 ^ L"
      using floorlog_bounds [of m 2] m(1) unfolding L_def by simp_all
    have L: "0 < L" using m(1) unfolding L_def floorlog_def by simp
    have e: "expo x = - int L"
      using False unfolding expo_def L_def m_def z_def bitlen_def by simp
    have "m + 1 \<le> 2 ^ L" using b(2) by simp
    then have "real (m + 1) \<le> real (2 ^ L)" by (rule of_nat_mono)
    then have "real m + 1 \<le> 2 ^ L" by simp
    then have u: "z \<le> 2 ^ L" using m(3) by linarith
    have "real (2 ^ (L - 1)) \<le> real m" using b(1) by (rule of_nat_mono)
    then have "(2::real) ^ (L - 1) \<le> real m" by simp
    then have l: "2 ^ (L - 1) < z" using m(2) by linarith
    have zx: "\<bar>x\<bar> = 1 / z" unfolding z_def by simp
    have 1: "1 / 2 ^ L \<le> \<bar>x\<bar>" unfolding zx using u z
      by (intro divide_left_mono) simp_all
    have zp: "0 < z * 2 ^ (L - 1)" using z by simp
    have 2: "\<bar>x\<bar> < 1 / 2 ^ (L - 1)" unfolding zx using l zp
      by (intro divide_strict_left_mono) simp_all
    have "- int L + 1 = - int (L - 1)" using L by simp
    then show ?thesis using 1 2 unfolding e by (simp only: pow2_neg_nat simp_thms)
  qed
  then show "pow2 (expo x) \<le> \<bar>x\<bar>" "\<bar>x\<bar> < pow2 (expo x + 1)" by simp_all
qed

lemma expo_eqI:
  assumes "pow2 e \<le> \<bar>x\<bar>" "\<bar>x\<bar> < pow2 (e + 1)"
  shows "expo x = e"
proof -
  have "x \<noteq> 0" using assms(1) pow2_pos [of e] by auto
  note b = expo_bounds [OF this]
  have "pow2 e < pow2 (expo x + 1)" using assms(1) b(2) by linarith
  moreover have "pow2 (expo x) < pow2 (e + 1)" using assms(2) b(1) by linarith
  ultimately show ?thesis unfolding pow2_less_iff by linarith
qed

lemma pow2_le_iff: "pow2 a \<le> pow2 b \<longleftrightarrow> a \<le> b"
  by (simp add: pow2_powr)

lemma pow2_double: "pow2 (e + 1) = 2 * pow2 e"
  using pow2_add [of e 1] by (simp add: pow2_def)

lemma expo_normal:
  assumes "pow2 (- 1022) \<le> \<bar>x\<bar>"
  shows "max (expo x) (- 1022) = expo x"
proof -
  have "x \<noteq> 0" using assms pow2_pos [of "- 1022"] by auto
  from expo_bounds(2) [OF this] assms have "pow2 (- 1022) < pow2 (expo x + 1)" by linarith
  then show ?thesis unfolding pow2_less_iff by simp
qed

lemma rnd_eval:
  assumes "pow2 e \<le> \<bar>x\<bar>" "\<bar>x\<bar> < pow2 (e + 1)" "- 1022 \<le> e"
  shows "rnd x = of_int (rne (x * pow2 (52 - e))) * pow2 (e - 52)"
proof -
  have "x \<noteq> 0" using assms(1) pow2_pos [of e] by auto
  moreover have "max (expo x) (- 1022) = e"
    using expo_eqI [OF assms(1,2)] assms(3) by simp
  ultimately show ?thesis by (simp add: rnd_def)
qed

lemma rne_error: "\<bar>of_int (rne y) - y\<bar> \<le> 1 / 2"
  unfolding rne_def Let_def by (auto simp: abs_le_iff; linarith)

lemma rne_abs_le: "\<bar>of_int (rne y) :: real\<bar> \<le> 2 * \<bar>y\<bar>"
proof (cases "\<bar>y\<bar> < 1 / 2")
  case True
  with rne_error [of y] have "\<bar>of_int (rne y) :: real\<bar> < 1" by linarith
  then have "rne y = 0" by linarith
  then show ?thesis by simp
next
  case False
  with rne_error [of y] show ?thesis by linarith
qed

lemma rnd_scaled:
  assumes "x \<noteq> 0"
  obtains s t where "0 < s" "0 < t" "s * t = 1" "rnd x = of_int (rne (x * s)) * t"
    "t = pow2 (max (expo x) (- 1022) - 52)"
proof -
  define e where "e = max (expo x) (- 1022)"
  have "pow2 (52 - e) * pow2 (e - 52) = 1" by (rule pow2_inverse)
  moreover have "rnd x = of_int (rne (x * pow2 (52 - e))) * pow2 (e - 52)"
    using assms by (simp add: rnd_def e_def Let_def)
  ultimately show ?thesis
    using that [of "pow2 (52 - e)" "pow2 (e - 52)"] pow2_pos e_def by blast
qed

lemma rnd_abs_le: "\<bar>rnd x\<bar> \<le> 2 * \<bar>x\<bar>"
proof (cases "x = 0")
  case True
  then show ?thesis by (simp add: rnd_def)
next
  case False
  from rnd_scaled [OF False] obtain s t where
    st: "0 < s" "0 < t" "s * t = 1" "rnd x = of_int (rne (x * s)) * t" by blast
  have "\<bar>rnd x\<bar> = \<bar>of_int (rne (x * s)) :: real\<bar> * t"
    using st(2) by (simp add: st(4) abs_mult)
  also have "\<dots> \<le> (2 * \<bar>x * s\<bar>) * t"
    using rne_abs_le [of "x * s"] st(2) by (intro mult_right_mono) simp_all
  also have "\<dots> = 2 * \<bar>x\<bar> * (s * t)"
    using st(1) by (simp add: abs_mult)
  finally show ?thesis by (simp add: st(3))
qed

lemma rnd_error:
  assumes "pow2 (- 1022) \<le> \<bar>x\<bar>"
  shows "\<bar>rnd x - x\<bar> \<le> \<bar>x\<bar> / 2 ^ 53"
proof -
  have nz: "x \<noteq> 0" using assms pow2_pos [of "- 1022"] by auto
  define e where "e = expo x"
  from rnd_scaled [OF nz] obtain s t where
    st: "0 < s" "0 < t" "s * t = 1" "rnd x = of_int (rne (x * s)) * t"
      "t = pow2 (max (expo x) (- 1022) - 52)" by blast
  have t: "t = pow2 (e - 52)" unfolding st(5) expo_normal [OF assms] e_def ..
  have "rnd x - x = (of_int (rne (x * s)) - x * s) * t"
    using st(3) by (simp add: st(4) algebra_simps)
  then have "\<bar>rnd x - x\<bar> = \<bar>of_int (rne (x * s)) - x * s\<bar> * t"
    using st(2) by (simp add: abs_mult)
  also have "\<dots> \<le> (1 / 2) * t"
    using rne_error [of "x * s"] st(2) by (simp add: mult_right_mono)
  also have "\<dots> = pow2 e / 2 ^ 53"
  proof -
    have "pow2 e = pow2 (e - 52) * pow2 52" using pow2_add [of "e - 52" 52] by simp
    then have "pow2 e = t * 2 ^ 52" by (simp add: t pow2_def)
    then show ?thesis by simp
  qed
  also have "\<dots> \<le> \<bar>x\<bar> / 2 ^ 53"
    using expo_bounds(1) [OF nz] by (simp add: e_def divide_right_mono)
  finally show ?thesis .
qed

text \<open>When a rounded result is finite.\<close>

lemma to_float_FinI: "\<bar>rnd x\<bar> < pow2 1024 \<Longrightarrow> to_float x = Fin (rnd x)"
  by (simp add: to_float_def Let_def)

lemma to_float_in_range:
  assumes "\<bar>x\<bar> \<le> 6 / 5 * pow2 1023"
  shows "to_float x = Fin (rnd x)"
proof (rule to_float_FinI)
  have d: "pow2 1024 = 2 * pow2 1023" using pow2_double [of 1023] by simp
  have p: "0 < pow2 1023" by (rule pow2_pos)
  show "\<bar>rnd x\<bar> < pow2 1024"
  proof (cases "pow2 (- 1022) \<le> \<bar>x\<bar>")
    case True
    have "\<bar>x\<bar> / 2 ^ 53 \<le> \<bar>x\<bar> / 2" by (rule divide_left_mono) simp_all
    with rnd_error [OF True] have "\<bar>rnd x\<bar> \<le> 3 / 2 * \<bar>x\<bar>" by linarith
    with assms p show ?thesis unfolding d by linarith
  next
    case False
    have "pow2 (- 1022) \<le> pow2 1023" unfolding pow2_le_iff by simp
    with False rnd_abs_le [of x] p show ?thesis unfolding d by linarith
  qed
qed

lemma to_float_moderate:
  assumes "\<bar>x\<bar> \<le> 2 ^ 64"
  shows "to_float x = Fin (rnd x)"
proof (rule to_float_in_range)
  have "(2::real) ^ 64 = pow2 64" by (simp add: pow2_def)
  also have "\<dots> \<le> pow2 1023" unfolding pow2_le_iff by simp
  finally show "\<bar>x\<bar> \<le> 6 / 5 * pow2 1023" using assms pow2_pos [of 1023] by linarith
qed

text \<open>The operations are unfolded on demand only.\<close>

declare fadd.simps [simp del] fmul.simps [simp del] fdiv.simps [simp del]

lemma fmul_moderate: "\<bar>x * y\<bar> \<le> 2 ^ 64 \<Longrightarrow> fmul (Fin x) (Fin y) = Fin (rnd (x * y))"
  by (simp add: fmul.simps to_float_moderate)

lemma fadd_moderate: "\<bar>x + y\<bar> \<le> 2 ^ 64 \<Longrightarrow> fadd (Fin x) (Fin y) = Fin (rnd (x + y))"
  by (simp add: fadd.simps to_float_moderate)

lemma fsub_moderate: "\<bar>x - y\<bar> \<le> 2 ^ 64 \<Longrightarrow> fsub (Fin x) (Fin y) = Fin (rnd (x - y))"
  by (simp add: fsub_def fadd.simps to_float_moderate)

lemma py_min_Fin: "py_min (Fin x) (Fin y) = Fin (min x y)"
  by (simp add: py_min_def min_def)

text \<open>The decimal literals of the source, as binary64 numbers.\<close>

lemma float_1_3: "rnd 1.3 = 5854679515581645 / 2 ^ 52"
  by (simp add: rnd_eval [where e = 0] rne_def pow2_def)

lemma float_1_1: "rnd 1.1 = 4953959590107546 / 2 ^ 52"
  by (simp add: rnd_eval [where e = 0] rne_def pow2_def)

lemma float_1_2: "rnd 1.2 = 5404319552844595 / 2 ^ 52"
  by (simp add: rnd_eval [where e = 0] rne_def pow2_def)

lemma float_0_6: "rnd 0.6 = 5404319552844595 / 2 ^ 53"
  by (simp add: rnd_eval [where e = "- 1"] rne_def pow2_def)

lemma float_0_8: "rnd 0.8 = 7205759403792794 / 2 ^ 53"
  by (simp add: rnd_eval [where e = "- 1"] rne_def pow2_def)

lemma float_0_15: "rnd 0.15 = 5404319552844595 / 2 ^ 55"
  by (simp add: rnd_eval [where e = "- 3"] rne_def pow2_def)

lemma float_0_7: "rnd 0.7 = 6305039478318694 / 2 ^ 53"
  by (simp add: rnd_eval [where e = "- 1"] rne_def pow2_def)

lemma float_0_1: "rnd 0.1 = 7205759403792794 / 2 ^ 56"
  by (simp add: rnd_eval [where e = "- 4"] rne_def pow2_def)

lemma float_0_95: "rnd 0.95 = 8556839292003942 / 2 ^ 53"
  by (simp add: rnd_eval [where e = "- 1"] rne_def pow2_def)

lemma float_0_85: "rnd 0.85 = 7656119366529843 / 2 ^ 53"
  by (simp add: rnd_eval [where e = "- 1"] rne_def pow2_def)

lemma float_1_15: "rnd 1.15 = 5179139571476070 / 2 ^ 52"
  by (simp add: rnd_eval [where e = 0] rne_def pow2_def)

text \<open>The products of the scenario.\<close>

lemma mul_4000_1_3: "fmul (Fin 4000) (Fin (rnd 1.3)) = Fin 5200"
proof -
  have r: "rnd (4000 * (5854679515581645 / 2 ^ 52)) = 5200"
    by (simp add: rnd_eval [where e = 12] rne_def pow2_def)
  have "fmul (Fin 4000) (Fin (5854679515581645 / 2 ^ 52)) = Fin (rnd (4000 * (5854679515581645 / 2 ^ 52)))"
    by (rule fmul_moderate) simp
  then show ?thesis unfolding float_1_3 r .
qed

lemma mul_5200_1_1: "fmul (Fin 5200) (Fin (rnd 1.1)) = Fin (5720 + 1 / 2 ^ 40)"
proof -
  have r: "rnd (5200 * (4953959590107546 / 2 ^ 52)) = 5720 + 1 / 2 ^ 40"
    by (simp add: rnd_eval [where e = 12] rne_def pow2_def)
  have "fmul (Fin 5200) (Fin (4953959590107546 / 2 ^ 52)) = Fin (rnd (5200 * (4953959590107546 / 2 ^ 52)))"
    by (rule fmul_moderate) simp
  then show ?thesis unfolding float_1_1 r .
qed

lemma mul_5720_1000: "fmul (Fin (5720 + 1 / 2 ^ 40)) (Fin 1000) = Fin (5720000 + 1 / 2 ^ 30)"
proof -
  have r: "rnd ((5720 + 1 / 2 ^ 40) * 1000) = 5720000 + 1 / 2 ^ 30"
    by (simp add: rnd_eval [where e = 22] rne_def pow2_def)
  have "fmul (Fin (5720 + 1 / 2 ^ 40)) (Fin 1000) = Fin (rnd ((5720 + 1 / 2 ^ 40) * 1000))"
    by (rule fmul_moderate) simp
  then show ?thesis unfolding  r .
qed

lemma mul_price_0_8: "fmul (Fin (5720000 + 1 / 2 ^ 30)) (Fin (rnd 0.8)) = Fin (4576000 + 1 / 2 ^ 30)"
proof -
  have r: "rnd ((5720000 + 1 / 2 ^ 30) * (7205759403792794 / 2 ^ 53)) = 4576000 + 1 / 2 ^ 30"
    by (simp add: rnd_eval [where e = 22] rne_def pow2_def)
  have "fmul (Fin (5720000 + 1 / 2 ^ 30)) (Fin (7205759403792794 / 2 ^ 53)) = Fin (rnd ((5720000 + 1 / 2 ^ 30) * (7205759403792794 / 2 ^ 53)))"
    by (rule fmul_moderate) simp
  then show ?thesis unfolding float_0_8 r .
qed

lemma mul_price_1_2: "fmul (Fin (5720000 + 1 / 2 ^ 30)) (Fin (rnd 1.2)) = Fin (6864000 + 1 / 2 ^ 30)"
proof -
  have r: "rnd ((5720000 + 1 / 2 ^ 30) * (5404319552844595 / 2 ^ 52)) = 6864000 + 1 / 2 ^ 30"
    by (simp add: rnd_eval [where e = 22] rne_def pow2_def)
  have "fmul (Fin (5720000 + 1 / 2 ^ 30)) (Fin (5404319552844595 / 2 ^ 52)) = Fin (rnd ((5720000 + 1 / 2 ^ 30) * (5404319552844595 / 2 ^ 52)))"
    by (rule fmul_moderate) simp
  then show ?thesis unfolding float_1_2 r .
qed

text \<open>The sums of the confidence score.\<close>

lemma add_0_7_0_1: "fadd (Fin (rnd 0.7)) (Fin (rnd 0.1)) = Fin (7205759403792793 / 2 ^ 53)"
proof -
  have r: "rnd ((6305039478318694 / 2 ^ 53) + (7205759403792794 / 2 ^ 56)) = 7205759403792793 / 2 ^ 53"
    by (simp add: rnd_eval [where e = "- 1"] rne_def pow2_def)
  have "fadd (Fin (6305039478318694 / 2 ^ 53)) (Fin (7205759403792794 / 2 ^ 56)) = Fin (rnd ((6305039478318694 / 2 ^ 53) + (7205759403792794 / 2 ^ 56)))"
    by (rule fadd_moderate) simp
  then show ?thesis unfolding float_0_7 float_0_1 r .
qed

lemma add_0_7_0_15: "fadd (Fin (rnd 0.7)) (Fin (rnd 0.15)) = Fin (rnd 0.85)"
proof -
  have r: "rnd ((6305039478318694 / 2 ^ 53) + (5404319552844595 / 2 ^ 55)) = 7656119366529843 / 2 ^ 53"
    by (simp add: rnd_eval [where e = "- 1"] rne_def pow2_def)
  have "fadd (Fin (6305039478318694 / 2 ^ 53)) (Fin (5404319552844595 / 2 ^ 55)) = Fin (rnd ((6305039478318694 / 2 ^ 53) + (5404319552844595 / 2 ^ 55)))"
    by (rule fadd_moderate) simp
  then show ?thesis unfolding float_0_7 float_0_15 float_0_85 r .
qed

lemma add_sum_0_15: "fadd (Fin (7205759403792793 / 2 ^ 53)) (Fin (rnd 0.15)) = Fin (rnd 0.95)"
proof -
  have r: "rnd ((7205759403792793 / 2 ^ 53) + (5404319552844595 / 2 ^ 55)) = 8556839292003942 / 2 ^ 53"
    by (simp add: rnd_eval [where e = "- 1"] rne_def pow2_def)
  have "fadd (Fin (7205759403792793 / 2 ^ 53)) (Fin (5404319552844595 / 2 ^ 55)) = Fin (rnd ((7205759403792793 / 2 ^ 53) + (5404319552844595 / 2 ^ 55)))"
    by (rule fadd_moderate) simp
  then show ?thesis unfolding float_0_15 float_0_95 r .
qed

lemma add_0_7_0_1_0_15:
  "fadd (fadd (Fin (rnd 0.7)) (Fin (rnd 0.1))) (Fin (rnd 0.15)) = Fin (rnd 0.95)"
  unfolding add_0_7_0_1 by (rule add_sum_0_15)

section \<open>Rounding errors\<close>

text \<open>
  The relative error of a rounding is at most \<open>2\<^sup>-\<^sup>5\<^sup>3\<close> where the exact result is at
  least \<open>2\<^sup>-\<^sup>1\<^sup>0\<^sup>2\<^sup>2\<close> in magnitude (lemma \<open>rnd_error\<close>); the bounds below are stated
  for magnitudes at which every intermediate result is of that size and finite.
\<close>

lemma scale_bound:
  fixes a d P k :: real
  assumes "0 < a" "d \<le> (P / a) / k"
  shows "d * a \<le> P / k"
proof -
  have "d * a \<le> ((P / a) / k) * a"
    using assms by (intro mult_right_mono) simp_all
  also have "\<dots> = P / k" using assms(1) by simp
  finally show ?thesis .
qed

lemma tiny_le: "\<bar>p\<bar> / 2 ^ 53 \<le> \<bar>p::real\<bar> / 2"
  by (rule divide_left_mono) simp_all

lemma pow2_1019: "pow2 (- 1019) = 8 * pow2 (- 1022)"
  using pow2_add [of "- 1022" 3] by (simp add: pow2_def)

lemma in_rangeD:
  assumes "in_range x"
  shows "8 * pow2 (- 1022) \<le> \<bar>x\<bar>" "\<bar>x\<bar> \<le> pow2 1023" "pow2 (- 1022) \<le> \<bar>x\<bar>"
proof -
  show 1: "8 * pow2 (- 1022) \<le> \<bar>x\<bar>" "\<bar>x\<bar> \<le> pow2 1023"
    using assms unfolding in_range_def pow2_1019 by simp_all
  show "pow2 (- 1022) \<le> \<bar>x\<bar>" using 1(1) pow2_pos [of "- 1022"] by linarith
qed

lemma in_range_to_float:
  assumes "in_range x"
  shows "to_float x = Fin (rnd x)"
proof (rule to_float_in_range)
  show "\<bar>x\<bar> \<le> 6 / 5 * pow2 1023"
    using in_rangeD(2) [OF assms] pow2_pos [of 1023] by linarith
qed

lemma quotient_times_error:
  assumes "0 < a" "pow2 (- 1022) \<le> \<bar>p / a\<bar>"
  shows "\<bar>rnd (p / a) * a - p\<bar> \<le> \<bar>p\<bar> / 2 ^ 53"
proof -
  have "rnd (p / a) * a - p = (rnd (p / a) - p / a) * a"
    using assms(1) by (simp add: left_diff_distrib)
  then have "\<bar>rnd (p / a) * a - p\<bar> = \<bar>rnd (p / a) - p / a\<bar> * a"
    using assms(1) by (simp add: abs_mult)
  moreover have "\<bar>rnd (p / a) - p / a\<bar> \<le> (\<bar>p\<bar> / a) / 2 ^ 53"
    using rnd_error [OF assms(2)] assms(1) by (simp only: abs_divide abs_of_pos)
  then have "\<bar>rnd (p / a) - p / a\<bar> * a \<le> \<bar>p\<bar> / 2 ^ 53"
    by (rule scale_bound [OF assms(1)])
  ultimately show ?thesis by (simp only:)
qed

lemma product_of_quotient_error:
  assumes "0 < a" "pow2 (- 1022) \<le> \<bar>p / a\<bar>" "in_range p"
  shows "fmul (Fin (rnd (p / a))) (Fin a) = Fin (rnd (rnd (p / a) * a))"
    and "\<bar>rnd (rnd (p / a) * a) - p\<bar> \<le> \<bar>p\<bar> / 2 ^ 51"
proof -
  define x where "x = rnd (p / a) * a"
  note r = in_rangeD [OF assms(3)]
  have 1: "\<bar>x - p\<bar> \<le> \<bar>p\<bar> / 2 ^ 53"
    unfolding x_def by (rule quotient_times_error [OF assms(1,2)])
  have fifth: "\<bar>p\<bar> / 2 ^ 53 \<le> \<bar>p\<bar> / 5" by (rule divide_left_mono) simp_all
  from 1 fifth have 2: "\<bar>x\<bar> \<le> 2 * \<bar>p\<bar>" and lower: "\<bar>p\<bar> / 2 \<le> \<bar>x\<bar>"
    and upper: "\<bar>x\<bar> \<le> 6 / 5 * \<bar>p\<bar>" by linarith+
  from lower r(1) pow2_pos [of "- 1022"] have n: "pow2 (- 1022) \<le> \<bar>x\<bar>" by linarith
  have "\<bar>rnd x - x\<bar> \<le> \<bar>x\<bar> / 2 ^ 53" by (rule rnd_error [OF n])
  also have "\<dots> \<le> (2 * \<bar>p\<bar>) / 2 ^ 53" using 2 by (rule divide_right_mono) simp
  finally have 3: "\<bar>rnd x - x\<bar> \<le> (2 * \<bar>p\<bar>) / 2 ^ 53" .
  have 4: "(2 * \<bar>p\<bar>) / 2 ^ 53 + \<bar>p\<bar> / 2 ^ 53 \<le> \<bar>p\<bar> / 2 ^ 51" by simp
  have "\<bar>rnd x - p\<bar> \<le> \<bar>rnd x - x\<bar> + \<bar>x - p\<bar>" by linarith
  with 1 3 4 have "\<bar>rnd x - p\<bar> \<le> \<bar>p\<bar> / 2 ^ 51" by linarith
  then show "\<bar>rnd (rnd (p / a) * a) - p\<bar> \<le> \<bar>p\<bar> / 2 ^ 51" by (simp only: x_def)
  have "\<bar>x\<bar> \<le> 6 / 5 * pow2 1023" using upper r(2) by linarith
  then have "to_float x = Fin (rnd x)" by (rule to_float_in_range)
  then show "fmul (Fin (rnd (p / a))) (Fin a) = Fin (rnd (rnd (p / a) * a))"
    by (simp only: fmul.simps x_def)
qed

lemma rounded_product_error:
  assumes "pow2 (- 1022) \<le> \<bar>x\<bar>"
  shows "\<bar>x - rnd x\<bar> \<le> \<bar>rnd x\<bar> / 2 ^ 52"
proof -
  define y where "y = rnd x"
  have e: "\<bar>y - x\<bar> \<le> \<bar>x\<bar> / 2 ^ 53" unfolding y_def by (rule rnd_error [OF assms])
  from e tiny_le [of x] have "\<bar>x\<bar> \<le> 2 * \<bar>y\<bar>" by linarith
  then have "\<bar>x\<bar> / 2 ^ 53 \<le> (2 * \<bar>y\<bar>) / 2 ^ 53" by (rule divide_right_mono) simp
  also have "\<dots> = \<bar>y\<bar> / 2 ^ 52" by simp
  finally have "\<bar>x - y\<bar> \<le> \<bar>y\<bar> / 2 ^ 52" using e by linarith
  then show ?thesis by (simp only: y_def)
qed

lemma fifteen_percent_error:
  fixes p :: real
  assumes "in_range p"
  shows "\<bar>rnd (p * rnd 0.15) - 3 / 20 * p\<bar> \<le> \<bar>p\<bar> / 2 ^ 54"
proof -
  define C :: real where "C = 5404319552844595 / 2 ^ 55"
  define q where "q = rnd (p * C)"
  define P where "P = \<bar>p\<bar>"
  define u where "u = pow2 (- 1022)"
  have c: "rnd 0.15 = C" unfolding C_def by (rule float_0_15)
  have u: "8 * u \<le> P" unfolding u_def P_def by (rule in_rangeD(1) [OF assms])
  have pc: "\<bar>p * C\<bar> = P * C" unfolding C_def P_def by (simp add: abs_mult)
  have "P * (1 / 8) \<le> P * C" unfolding C_def P_def by (intro mult_left_mono) simp_all
  with u have "u \<le> P * C" by linarith
  then have n: "pow2 (- 1022) \<le> \<bar>p * C\<bar>" unfolding pc u_def .
  have "\<bar>q - p * C\<bar> \<le> \<bar>p * C\<bar> / 2 ^ 53" unfolding q_def by (rule rnd_error [OF n])
  then have A: "\<bar>q - p * C\<bar> \<le> P * C / 2 ^ 53" unfolding pc .
  have "p * C - 3 / 20 * p = p * (C - 3 / 20)" by (simp add: algebra_simps)
  then have "\<bar>p * C - 3 / 20 * p\<bar> = P * \<bar>C - 3 / 20\<bar>"
    unfolding P_def by (simp only: abs_mult)
  moreover have "\<bar>C - 3 / 20\<bar> = 1 / (5 * 2 ^ 55)" unfolding C_def by simp
  ultimately have B: "\<bar>p * C - 3 / 20 * p\<bar> = P * (1 / (5 * 2 ^ 55))" by simp
  have K: "P * C / 2 ^ 53 + P * (1 / (5 * 2 ^ 55)) \<le> P / 2 ^ 54"
    unfolding C_def P_def by simp
  have "\<bar>q - 3 / 20 * p\<bar> \<le> \<bar>q - p * C\<bar> + \<bar>p * C - 3 / 20 * p\<bar>" by linarith
  also have "\<dots> \<le> P * C / 2 ^ 53 + P * (1 / (5 * 2 ^ 55))"
    using A B by (simp only: add_mono order_refl)
  also note K
  finally have "\<bar>q - 3 / 20 * p\<bar> \<le> P / 2 ^ 54" .
  then show ?thesis by (simp only: c q_def P_def)
qed

lemma interval_error:
  fixes p :: real
  assumes "in_range p"
  shows "\<exists>lo hi.
     fsub (Fin p) (fmul (Fin p) (Fin (rnd 0.15))) = Fin lo \<and>
     fadd (Fin p) (fmul (Fin p) (Fin (rnd 0.15))) = Fin hi \<and>
     \<bar>lo - 0.85 * p\<bar> \<le> \<bar>p\<bar> / 2 ^ 52 \<and> \<bar>hi - 1.15 * p\<bar> \<le> \<bar>p\<bar> / 2 ^ 52"
proof -
  define q where "q = rnd (p * rnd 0.15)"
  define t where "t = \<bar>p\<bar> / 2 ^ 54"
  define u where "u = pow2 (- 1022)"
  define M where "M = pow2 1023"
  note r = in_rangeD [OF assms]
  have u: "0 < u" "8 * u \<le> \<bar>p\<bar>" and M: "\<bar>p\<bar> \<le> M"
    using r pow2_pos [of "- 1022"] unfolding u_def M_def by simp_all
  have t0: "0 \<le> t" unfolding t_def by simp
  have t1: "20 * t \<le> \<bar>p\<bar>" unfolding t_def by simp
  have t52: "\<bar>p\<bar> / 2 ^ 52 = 4 * t" unfolding t_def by simp
  have E: "\<bar>q - 3 / 20 * p\<bar> \<le> t"
    unfolding q_def t_def by (rule fifteen_percent_error [OF assms])
  have Q: "\<bar>q\<bar> \<le> \<bar>p\<bar> / 5" using E t1 by linarith
  have pm: "\<bar>p - q\<bar> \<le> 6 / 5 * \<bar>p\<bar>" "\<bar>p + q\<bar> \<le> 6 / 5 * \<bar>p\<bar>"
    and lo: "u \<le> \<bar>p - q\<bar>" "u \<le> \<bar>p + q\<bar>"
    using Q u by linarith+
  have "\<bar>p * rnd 0.15\<bar> \<le> 6 / 5 * pow2 1023"
  proof -
    have "\<bar>p * rnd 0.15\<bar> = \<bar>p\<bar> * (5404319552844595 / 2 ^ 55)"
      unfolding float_0_15 by (simp add: abs_mult)
    also have "\<dots> \<le> \<bar>p\<bar> * 1" by (intro mult_left_mono) simp_all
    finally show ?thesis using M unfolding M_def by linarith
  qed
  then have "to_float (p * rnd 0.15) = Fin q"
    unfolding q_def by (rule to_float_in_range)
  then have m: "fmul (Fin p) (Fin (rnd 0.15)) = Fin q" by (simp only: fmul.simps)
  have "\<bar>p - q\<bar> \<le> 6 / 5 * pow2 1023" using pm(1) M unfolding M_def by linarith
  then have "to_float (p - q) = Fin (rnd (p - q))" by (rule to_float_in_range)
  then have s: "fsub (Fin p) (Fin q) = Fin (rnd (p - q))"
    by (simp add: fsub_def fadd.simps)
  have "\<bar>p + q\<bar> \<le> 6 / 5 * pow2 1023" using pm(2) M unfolding M_def by linarith
  then have "to_float (p + q) = Fin (rnd (p + q))" by (rule to_float_in_range)
  then have a: "fadd (Fin p) (Fin q) = Fin (rnd (p + q))" by (simp only: fadd.simps)
  have "\<bar>p - q\<bar> / 2 ^ 53 \<le> (6 / 5 * \<bar>p\<bar>) / 2 ^ 53"
    using pm(1) by (rule divide_right_mono) simp
  also have "\<dots> = 12 / 5 * t" unfolding t_def by simp
  finally have "\<bar>p - q\<bar> / 2 ^ 53 \<le> 12 / 5 * t" .
  with rnd_error [of "p - q"] lo(1)
  have D1: "\<bar>rnd (p - q) - (p - q)\<bar> \<le> 12 / 5 * t" unfolding u_def by linarith
  have "\<bar>p + q\<bar> / 2 ^ 53 \<le> (6 / 5 * \<bar>p\<bar>) / 2 ^ 53"
    using pm(2) by (rule divide_right_mono) simp
  also have "\<dots> = 12 / 5 * t" unfolding t_def by simp
  finally have "\<bar>p + q\<bar> / 2 ^ 53 \<le> 12 / 5 * t" .
  with rnd_error [of "p + q"] lo(2)
  have D2: "\<bar>rnd (p + q) - (p + q)\<bar> \<le> 12 / 5 * t" unfolding u_def by linarith
  have "\<bar>rnd (p - q) - 17 / 20 * p\<bar> \<le> 4 * t" using D1 E t0 by linarith
  then have "\<bar>rnd (p - q) - 17 / 20 * p\<bar> \<le> \<bar>p\<bar> / 2 ^ 52" by (simp only: t52)
  moreover have "(0.85::real) = 17 / 20" by simp
  ultimately have L: "\<bar>rnd (p - q) - 0.85 * p\<bar> \<le> \<bar>p\<bar> / 2 ^ 52" by (simp only:)
  have "\<bar>rnd (p + q) - 23 / 20 * p\<bar> \<le> 4 * t" using D2 E t0 by linarith
  then have "\<bar>rnd (p + q) - 23 / 20 * p\<bar> \<le> \<bar>p\<bar> / 2 ^ 52" by (simp only: t52)
  moreover have "(1.15::real) = 23 / 20" by simp
  ultimately have H: "\<bar>rnd (p + q) - 1.15 * p\<bar> \<le> \<bar>p\<bar> / 2 ^ 52" by (simp only:)
  show ?thesis unfolding m s a using L H by blast
qed

section \<open>The feature vector\<close>

lemma bindE_Inr_iff: "bindE m f = Inr y \<longleftrightarrow> (\<exists>x. m = Inr x \<and> f x = Inr y)"
  by (cases m) simp_all

lemma bindE_Inl_iff: "bindE m f = Inl e \<longleftrightarrow> m = Inl e \<or> (\<exists>x. m = Inr x \<and> f x = Inl e)"
  by (cases m) simp_all

lemma estimate_distances_dict:
  "estimate_distances lat lng dn = Inr d \<Longrightarrow> distance_dict d"
  unfolding estimate_distances_def distance_dict_def Let_def bindE_Inr_iff
  by blast

lemma calculate_distances_dict:
  assumes "calculate_distances g lat lng dn = Inr d"
  shows "distance_dict d"
proof -
  let ?cc = "case city_centers dn of None \<Rightarrow> (lat, lng) | Some c \<Rightarrow> c"
  let ?attempt = "bindE (city_distance g lat lng ?cc) (\<lambda>d_city.
            bindE (place_distance g lat lng ''school'' 5) (\<lambda>d_school.
            bindE (place_distance g lat lng ''hospital'' 3) (\<lambda>d_hospital.
            Inr [''distance_to_city'' \<mapsto> Num d_city,
                 ''distance_to_school'' \<mapsto> Num d_school,
                 ''distance_to_hospital'' \<mapsto> Num d_hospital])))"
  show ?thesis
  proof (cases ?attempt)
    case (Inl e)
    with assms have "estimate_distances lat lng dn = Inr d"
      by (simp add: calculate_distances_def Let_def)
    then show ?thesis by (rule estimate_distances_dict)
  next
    case (Inr dd)
    then obtain c s h where dd: "dd = [''distance_to_city'' \<mapsto> Num c,
                 ''distance_to_school'' \<mapsto> Num s,
                 ''distance_to_hospital'' \<mapsto> Num h]"
      unfolding bindE_Inr_iff by blast
    from assms Inr
    have "d = dd(''distance_to_highway'' \<mapsto> Num 5, ''distance_to_metro'' \<mapsto> Num 10)"
      by (simp add: calculate_distances_def Let_def)
    with dd have "d = [''distance_to_city'' \<mapsto> Num c, ''distance_to_highway'' \<mapsto> Num 5,
        ''distance_to_metro'' \<mapsto> Num 10, ''distance_to_school'' \<mapsto> Num s,
        ''distance_to_hospital'' \<mapsto> Num h]"
      by (intro ext) simp
    then show ?thesis unfolding distance_dict_def by blast
  qed
qed

text \<open>What \<^verbatim>\<open>create_features\<close> returns, whenever it returns.\<close>

lemma create_features_shape:
  assumes "create_features g a = Inr f"
  shows "\<exists>d. distance_dict d \<and>
     f = (direct_features a ++ d)(''avg_price_in_area'' \<mapsto>
           Num (get_avg_price_in_area (district a) (state a)))"
proof -
  from assms obtain d where
    d: "(case g of
               Some g \<Rightarrow>
                 (case calculate_distances g (latitude a) (longitude a) (district a) of
                    Inr d \<Rightarrow> Inr d
                  | Inl e \<Rightarrow> estimate_distances (latitude a) (longitude a) (district a))
             | None \<Rightarrow> estimate_distances (latitude a) (longitude a) (district a)) = Inr d"
    and f: "f = (direct_features a ++ d)(''avg_price_in_area'' \<mapsto>
           Num (get_avg_price_in_area (district a) (state a)))"
    unfolding create_features_def Let_def bindE_Inr_iff by blast
  from d have "distance_dict d"
    by (auto split: option.splits sum.splits
        dest: estimate_distances_dict calculate_distances_dict)
  with f show ?thesis by blast
qed

section \<open>The great-circle distance\<close>

text \<open>Rounding commutes with negation, and leaves 0 and 1 as they are.\<close>

lemma rne_minus: "rne (- y) = - rne y"
proof (cases "y = of_int \<lfloor>y\<rfloor>")
  case True
  then have "\<lfloor>- y\<rfloor> = - \<lfloor>y\<rfloor>" by (metis floor_of_int of_int_minus)
  with True show ?thesis by (simp add: rne_def Let_def)
next
  case False
  define f where "f = \<lfloor>y\<rfloor>"
  define d where "d = y - of_int f"
  have d: "0 < d" "d < 1"
    using False unfolding d_def f_def by linarith+
  have g: "\<lfloor>- y\<rfloor> = - f - 1" using d unfolding d_def by linarith
  have e: "- y - of_int (- f - 1) = 1 - d" unfolding d_def by simp
  have L: "rne y =
      (if d < 1 / 2 then f else if 1 / 2 < d then f + 1 else if even f then f else f + 1)"
    unfolding rne_def Let_def f_def d_def ..
  have R: "rne (- y) =
      (if 1 - d < 1 / 2 then - f - 1 else if 1 / 2 < 1 - d then - f - 1 + 1
       else if even (- f - 1) then - f - 1 else - f - 1 + 1)"
    unfolding rne_def Let_def g e ..
  consider "d < 1 / 2" | "1 / 2 < d" | "d = 1 / 2" by linarith
  then show ?thesis
  proof cases
    case 1
    then show ?thesis unfolding L R by simp
  next
    case 2
    then show ?thesis unfolding L R by simp
  next
    case 3
    then show ?thesis unfolding L R by simp
  qed
qed

lemma expo_minus: "expo (- x) = expo x"
  by (simp add: expo_def)

lemma rnd_minus: "rnd (- x) = - rnd x"
proof (cases "x = 0")
  case True
  then show ?thesis by (simp add: rnd_def)
next
  case False
  have "rne (- x * pow2 (52 - max (expo x) (- 1022))) =
      - rne (x * pow2 (52 - max (expo x) (- 1022)))"
    using rne_minus [of "x * pow2 (52 - max (expo x) (- 1022))"] by simp
  with False show ?thesis by (simp add: rnd_def expo_minus Let_def)
qed

lemma rnd_zero: "rnd 0 = 0"
  by (simp add: rnd_def)

lemma rnd_one: "rnd 1 = 1"
  by (simp add: rnd_eval [where e = 0] rne_def pow2_def)

lemma haversine_a_same: "haversine_a la lo la lo = 0"
  by (simp add: haversine_a_def Let_def math_sin_def squared_def rnd_zero)

lemma haversine_distance_same: "haversine_distance la lo la lo = Inr 0"
  by (simp add: haversine_distance_def haversine_a_same math_sqrt_def math_atan2_def
      atan2_def rnd_zero rnd_one Let_def)

lemma squared_sin_half_diff:
  "squared (math_sin (rnd (rnd (x - y) / 2))) = squared (math_sin (rnd (rnd (y - x) / 2)))"
proof -
  have "x - y = - (y - x)" by simp
  then have "rnd (x - y) = - rnd (y - x)" by (simp only: rnd_minus)
  then have "rnd (rnd (x - y) / 2) = - rnd (rnd (y - x) / 2)"
    using rnd_minus [of "rnd (y - x) / 2"] by simp
  then have "math_sin (rnd (rnd (x - y) / 2)) = - math_sin (rnd (rnd (y - x) / 2))"
    unfolding math_sin_def by (simp only: sin_minus rnd_minus)
  then show ?thesis by (simp add: squared_def)
qed

lemma haversine_a_sym: "haversine_a la1 lo1 la2 lo2 = haversine_a la2 lo2 la1 lo1"
  unfolding haversine_a_def Let_def
  by (simp only: squared_sin_half_diff [of "radians la2" "radians la1"]
      squared_sin_half_diff [of "radians lo2" "radians lo1"]
      mult.commute [of "math_cos (radians la1)" "math_cos (radians la2)"])

lemma haversine_distance_sym:
  "haversine_distance la1 lo1 la2 lo2 = haversine_distance la2 lo2 la1 lo1"
  unfolding haversine_distance_def by (simp add: haversine_a_sym [of la1 lo1 la2 lo2])

text \<open>
  The sine and the cosine between their Maclaurin polynomials: the enclosures that decide
  how a value of the two functions rounds.
\<close>

lemma sin_series_14:
  fixes x :: real
  assumes "0 < x"
  shows "\<bar>sin x - (x - x ^ 3 / 6 + x ^ 5 / 120 - x ^ 7 / 5040 + x ^ 9 / 362880 - x ^ 11 / 39916800 + x ^ 13 / 6227020800)\<bar> \<le> x ^ 14 / 87178291200"
proof -
  from Maclaurin_sin_expansion3 [of 14 x] assms obtain t where
    t: "sin x = (\<Sum>m<14. sin_coeff m * x ^ m) +
          sin (t + 1 / 2 * real 14 * pi) / fact 14 * x ^ 14"
    by auto
  have p: "(\<Sum>m<14. sin_coeff m * x ^ m) = x - x ^ 3 / 6 + x ^ 5 / 120 - x ^ 7 / 5040 + x ^ 9 / 362880 - x ^ 11 / 39916800 + x ^ 13 / 6227020800"
    by (simp add: lessThan_nat_numeral sin_coeff_def fact_numeral)
  have f: "fact 14 = (87178291200::real)" by (simp add: fact_numeral)
  have "\<bar>sin (t + 1 / 2 * real 14 * pi) / fact 14 * x ^ 14\<bar> =
      \<bar>sin (t + 1 / 2 * real 14 * pi)\<bar> * (x ^ 14 / 87178291200)"
    using assms unfolding f by (simp add: abs_mult)
  also have "\<dots> \<le> 1 * (x ^ 14 / 87178291200)"
    using assms by (intro mult_right_mono) simp_all
  finally have "\<bar>sin (t + 1 / 2 * real 14 * pi) / fact 14 * x ^ 14\<bar> \<le> x ^ 14 / 87178291200"
    by simp
  then show ?thesis unfolding t p by simp
qed

lemma cos_series_14:
  fixes x :: real
  assumes "0 < x"
  shows "\<bar>cos x - (1 - x ^ 2 / 2 + x ^ 4 / 24 - x ^ 6 / 720 + x ^ 8 / 40320 - x ^ 10 / 3628800 + x ^ 12 / 479001600)\<bar> \<le> x ^ 14 / 87178291200"
proof -
  from Maclaurin_cos_expansion2 [of x 14] assms obtain t where
    t: "cos x = (\<Sum>m<14. cos_coeff m * x ^ m) +
          cos (t + 1 / 2 * real 14 * pi) / fact 14 * x ^ 14"
    by auto
  have p: "(\<Sum>m<14. cos_coeff m * x ^ m) = 1 - x ^ 2 / 2 + x ^ 4 / 24 - x ^ 6 / 720 + x ^ 8 / 40320 - x ^ 10 / 3628800 + x ^ 12 / 479001600"
    by (simp add: lessThan_nat_numeral cos_coeff_def fact_numeral)
  have f: "fact 14 = (87178291200::real)" by (simp add: fact_numeral)
  have "\<bar>cos (t + 1 / 2 * real 14 * pi) / fact 14 * x ^ 14\<bar> =
      \<bar>cos (t + 1 / 2 * real 14 * pi)\<bar> * (x ^ 14 / 87178291200)"
    using assms unfolding f by (simp add: abs_mult)
  also have "\<dots> \<le> 1 * (x ^ 14 / 87178291200)"
    using assms by (intro mult_right_mono) simp_all
  finally have "\<bar>cos (t + 1 / 2 * real 14 * pi) / fact 14 * x ^ 14\<bar> \<le> x ^ 14 / 87178291200"
    by simp
  then show ?thesis unfolding t p by simp
qed

lemma sin_series_24:
  fixes x :: real
  assumes "0 < x"
  shows "\<bar>sin x - (x - x ^ 3 / 6 + x ^ 5 / 120 - x ^ 7 / 5040 + x ^ 9 / 362880 - x ^ 11 / 39916800 + x ^ 13 / 6227020800 - x ^ 15 / 1307674368000 + x ^ 17 / 355687428096000 - x ^ 19 / 121645100408832000 + x ^ 21 / 51090942171709440000 - x ^ 23 / 25852016738884976640000)\<bar> \<le> x ^ 24 / 620448401733239439360000"
proof -
  from Maclaurin_sin_expansion3 [of 24 x] assms obtain t where
    t: "sin x = (\<Sum>m<24. sin_coeff m * x ^ m) +
          sin (t + 1 / 2 * real 24 * pi) / fact 24 * x ^ 24"
    by auto
  have p: "(\<Sum>m<24. sin_coeff m * x ^ m) = x - x ^ 3 / 6 + x ^ 5 / 120 - x ^ 7 / 5040 + x ^ 9 / 362880 - x ^ 11 / 39916800 + x ^ 13 / 6227020800 - x ^ 15 / 1307674368000 + x ^ 17 / 355687428096000 - x ^ 19 / 121645100408832000 + x ^ 21 / 51090942171709440000 - x ^ 23 / 25852016738884976640000"
    by (simp add: lessThan_nat_numeral sin_coeff_def fact_numeral)
  have f: "fact 24 = (620448401733239439360000::real)" by (simp add: fact_numeral)
  have "\<bar>sin (t + 1 / 2 * real 24 * pi) / fact 24 * x ^ 24\<bar> =
      \<bar>sin (t + 1 / 2 * real 24 * pi)\<bar> * (x ^ 24 / 620448401733239439360000)"
    using assms unfolding f by (simp add: abs_mult)
  also have "\<dots> \<le> 1 * (x ^ 24 / 620448401733239439360000)"
    using assms by (intro mult_right_mono) simp_all
  finally have "\<bar>sin (t + 1 / 2 * real 24 * pi) / fact 24 * x ^ 24\<bar> \<le> x ^ 24 / 620448401733239439360000"
    by simp
  then show ?thesis unfolding t p by simp
qed

text \<open>A real within half a unit in the last place of a float rounds to that float.\<close>

lemma rne_near:
  assumes "\<bar>y - of_int m\<bar> < 1 / 2"
  shows "rne y = m"
proof -
  from assms rne_error [of y] have "\<bar>of_int (rne y) - of_int m :: real\<bar> < 1" by linarith
  then have "\<bar>of_int (rne y - m) :: real\<bar> < 1" by simp
  then have "rne y - m = 0" by linarith
  then show ?thesis by simp
qed

lemma rnd_near:
  assumes m: "2 ^ 52 < m" "m < 2 ^ 53" and e: "- 1022 \<le> e"
    and d: "d = of_int m * pow2 (e - 52)"
    and x: "\<bar>x - d\<bar> < pow2 (e - 53)"
  shows "rnd x = d"
proof -
  define t where "t = pow2 (e - 52)"
  define s where "s = pow2 (52 - e)"
  define M :: real where "M = of_int m"
  have t: "0 < t" and s: "0 < s" unfolding t_def s_def by (rule pow2_pos)+
  have st: "s * t = 1" unfolding s_def t_def by (rule pow2_inverse)
  have h: "pow2 (e - 53) = t / 2"
    using pow2_double [of "e - 53"] unfolding t_def by simp
  have p: "pow2 52 = 2 ^ 52" "pow2 53 = 2 ^ 53" by (simp_all add: pow2_def)
  have l: "pow2 e = 2 ^ 52 * t"
    using pow2_add [of 52 "e - 52"] unfolding t_def p by simp
  have "53 + (e - 52) = e + 1" by simp
  then have u: "pow2 (e + 1) = 2 ^ 53 * t"
    using pow2_add [of 53 "e - 52"] unfolding t_def p by (simp only:)
  from m have "2 ^ 52 + 1 \<le> m" "m + 1 \<le> 2 ^ 53" by simp_all
  then have "(of_int (2 ^ 52 + 1) :: real) \<le> of_int m" "(of_int (m + 1) :: real) \<le> of_int (2 ^ 53)"
    by (simp_all only: of_int_le_iff)
  then have M: "2 ^ 52 + 1 \<le> M" "M + 1 \<le> 2 ^ 53" unfolding M_def by simp_all
  define k :: real where "k = 2 ^ 52"
  have k: "2 ^ 53 = 2 * k" unfolding k_def by simp
  from M have Mk: "k + 1 \<le> M" "M + 1 \<le> 2 * k" unfolding k k_def by simp_all
  have "(k + 1) * t \<le> M * t" "(M + 1) * t \<le> (2 * k) * t"
    using Mk t by (simp_all only: mult_le_cancel_right_pos)
  then have Mt: "k * t + t \<le> M * t" "M * t + t \<le> 2 * (k * t)"
    by (simp_all add: algebra_simps)
  from x have "\<bar>x - M * t\<bar> < t / 2" unfolding d h t_def M_def .
  with Mt t have b: "k * t < x" "x < 2 * (k * t)" by linarith+
  have r: "pow2 e \<le> \<bar>x\<bar>" "\<bar>x\<bar> < pow2 (e + 1)"
    using b t unfolding l u k k_def [symmetric] by simp_all
  have "x * s - M = (x - M * t) * s"
    using st by (simp add: algebra_simps)
  then have "\<bar>x * s - M\<bar> = \<bar>x - d\<bar> * s"
    using s unfolding d t_def [symmetric] M_def by (simp add: abs_mult)
  also have "\<dots> < (t / 2) * s" using x s unfolding h by (intro mult_strict_right_mono)
  also have "\<dots> = 1 / 2" using st by (simp add: mult.commute)
  finally have "rne (x * s) = m" unfolding M_def by (rule rne_near)
  then show ?thesis
    unfolding rnd_eval [OF r e] d s_def [symmetric] t_def [symmetric] by simp
qed

lemma rnd_just_below_one:
  assumes "1 - 1 / 2 ^ 54 < x" "x \<le> 1"
  shows "rnd x = 1"
proof (cases "x = 1")
  case True
  then show ?thesis by (simp add: rnd_one)
next
  case False
  with assms have x: "x < 1" by simp
  have "(1::real) / 2 \<le> 1 - 1 / 2 ^ 54" by simp
  with assms(1) have "pow2 (- 1) \<le> \<bar>x\<bar>" by (simp add: pow2_def)
  moreover have "\<bar>x\<bar> < pow2 (- 1 + 1)" using x assms(1) by (simp add: pow2_def)
  ultimately have r: "rnd x = of_int (rne (x * pow2 (52 - - 1))) * pow2 (- 1 - 52)"
    by (rule rnd_eval) simp
  have "\<bar>x * 2 ^ 53 - of_int (2 ^ 53)\<bar> < 1 / 2"
    using assms x by (simp add: abs_less_iff algebra_simps)
  then have "rne (x * 2 ^ 53) = 2 ^ 53" by (rule rne_near)
  then show ?thesis unfolding r by (simp add: pow2_def)
qed

text \<open>The constants of \<^verbatim>\<open>math.radians\<close> and the four coordinates, as binary64 numbers.\<close>

lemma float_pi: "math_pi = 884279719003555 / 2 ^ 48"
  unfolding math_pi_def
  by (simp add: rnd_eval [where e = 1] rne_def pow2_def)

lemma float_deg_to_rad: "deg_to_rad = 5030569068109113 / 2 ^ 58"
  unfolding deg_to_rad_def float_pi
  by (simp add: rnd_eval [where e = "- 6"] rne_def pow2_def)

lemma float_kozhikode_lat: "rnd 11.2588 = 1584535233894967 / 2 ^ 47"
  by (simp add: rnd_eval [where e = 3] rne_def pow2_def)

lemma float_kozhikode_lon: "rnd 75.7804 = 5332571581281049 / 2 ^ 46"
  by (simp add: rnd_eval [where e = 6] rne_def pow2_def)

lemma float_antipode_lat: "rnd (- 11.2587999) = - (792267609910609 / 2 ^ 46)"
  by (simp add: rnd_eval [where e = 3] rne_def pow2_def)

lemma float_antipode_lon: "rnd (- 104.219601) = - (7333802441067215 / 2 ^ 46)"
  by (simp add: rnd_eval [where e = 6] rne_def pow2_def)

text \<open>The steps of the routine at these coordinates.\<close>

lemma radians_antipode_lat: "radians (- (792267609910609 / 2 ^ 46)) = - (7079771315121247 / 2 ^ 55)"
  unfolding radians_def float_deg_to_rad
  by (simp add: rnd_eval [where e = "- 3"] rne_def pow2_def)

lemma radians_antipode_lon: "radians (- (7333802441067215 / 2 ^ 46)) = - (8191935954394899 / 2 ^ 52)"
  unfolding radians_def float_deg_to_rad
  by (simp add: rnd_eval [where e = 0] rne_def pow2_def)

lemma radians_kozhikode_lat: "radians (1584535233894967 / 2 ^ 47) = 7079771378003361 / 2 ^ 55"
  unfolding radians_def float_deg_to_rad
  by (simp add: rnd_eval [where e = "- 3"] rne_def pow2_def)

lemma radians_kozhikode_lon: "radians (5332571581281049 / 2 ^ 46) = 2978269814132311 / 2 ^ 51"
  unfolding radians_def float_deg_to_rad
  by (simp add: rnd_eval [where e = 0] rne_def pow2_def)

lemma antipode_dlat: "rnd (7079771378003361 / 2 ^ 55 - (- (7079771315121247 / 2 ^ 55))) = 27655356822509 / 2 ^ 46"
  by (simp add: rnd_eval [where e = "- 2"] rne_def pow2_def)

lemma antipode_dlon: "rnd (2978269814132311 / 2 ^ 51 - (- (8191935954394899 / 2 ^ 52))) = 221069930979055 / 2 ^ 46"
  by (simp add: rnd_eval [where e = 1] rne_def pow2_def)

lemma antipode_half_dlat: "rnd (27655356822509 / 2 ^ 46 / 2) = 27655356822509 / 2 ^ 47"
  by (simp add: rnd_eval [where e = "- 3"] rne_def pow2_def)

lemma antipode_half_dlon: "rnd (221069930979055 / 2 ^ 46 / 2) = 221069930979055 / 2 ^ 47"
  by (simp add: rnd_eval [where e = 0] rne_def pow2_def)

lemma sin_half_dlat: "math_sin (27655356822509 / 2 ^ 47) = 1758574199356381 / 2 ^ 53"
proof -
  define x :: real where "x = 27655356822509 / 2 ^ 47"
  define p where "p = x - x ^ 3 / 6 + x ^ 5 / 120 - x ^ 7 / 5040 + x ^ 9 / 362880 - x ^ 11 / 39916800 + x ^ 13 / 6227020800"
  define r where "r = x ^ 14 / 87178291200"
  have x: "0 < x" unfolding x_def by simp
  have s: "\<bar>sin x - p\<bar> \<le> r" unfolding p_def r_def by (rule sin_series_14 [OF x])
  have c: "\<bar>p - 1758574199356381 / 2 ^ 53\<bar> + r < 1 / 2 ^ 56"
    unfolding p_def r_def x_def by (simp add: power_divide)
  have h: "pow2 (-3 - 53) = 1 / 2 ^ 56" by (simp add: pow2_def)
  from s c have b: "\<bar>sin x - 1758574199356381 / 2 ^ 53\<bar> < pow2 (-3 - 53)"
    unfolding h by linarith
  have "rnd (sin x) = 1758574199356381 / 2 ^ 53"
    by (rule rnd_near [where m = 7034296797425524 and e = "- 3", OF _ _ _ _ b]) (simp_all add: pow2_def)
  then show ?thesis unfolding math_sin_def x_def [symmetric] .
qed

lemma cos_antipode_lat: "math_cos (- (7079771315121247 / 2 ^ 55)) = 8833858456364265 / 2 ^ 53"
proof -
  define x :: real where "x = 7079771315121247 / 2 ^ 55"
  define p where "p = 1 - x ^ 2 / 2 + x ^ 4 / 24 - x ^ 6 / 720 + x ^ 8 / 40320 - x ^ 10 / 3628800 + x ^ 12 / 479001600"
  define r where "r = x ^ 14 / 87178291200"
  have x: "0 < x" unfolding x_def by simp
  have n: "cos (- (7079771315121247 / 2 ^ 55)) = cos x" unfolding x_def by (simp only: cos_minus)
  have s: "\<bar>cos x - p\<bar> \<le> r" unfolding p_def r_def by (rule cos_series_14 [OF x])
  have c: "\<bar>p - 8833858456364265 / 2 ^ 53\<bar> + r < 1 / 2 ^ 54"
    unfolding p_def r_def x_def by (simp add: power_divide)
  have h: "pow2 (-1 - 53) = 1 / 2 ^ 54" by (simp add: pow2_def)
  from s c have b: "\<bar>cos x - 8833858456364265 / 2 ^ 53\<bar> < pow2 (-1 - 53)"
    unfolding h by linarith
  have "rnd (cos x) = 8833858456364265 / 2 ^ 53"
    by (rule rnd_near [where m = 8833858456364265 and e = "- 1", OF _ _ _ _ b]) (simp_all add: pow2_def)
  then show ?thesis unfolding math_cos_def n .
qed

lemma cos_kozhikode_lat: "math_cos (7079771378003361 / 2 ^ 55) = 4416929226647487 / 2 ^ 52"
proof -
  define x :: real where "x = 7079771378003361 / 2 ^ 55"
  define p where "p = 1 - x ^ 2 / 2 + x ^ 4 / 24 - x ^ 6 / 720 + x ^ 8 / 40320 - x ^ 10 / 3628800 + x ^ 12 / 479001600"
  define r where "r = x ^ 14 / 87178291200"
  have x: "0 < x" unfolding x_def by simp
  have s: "\<bar>cos x - p\<bar> \<le> r" unfolding p_def r_def by (rule cos_series_14 [OF x])
  have c: "\<bar>p - 4416929226647487 / 2 ^ 52\<bar> + r < 1 / 2 ^ 54"
    unfolding p_def r_def x_def by (simp add: power_divide)
  have h: "pow2 (-1 - 53) = 1 / 2 ^ 54" by (simp add: pow2_def)
  from s c have b: "\<bar>cos x - 4416929226647487 / 2 ^ 52\<bar> < pow2 (-1 - 53)"
    unfolding h by linarith
  have "rnd (cos x) = 4416929226647487 / 2 ^ 52"
    by (rule rnd_near [where m = 8833858453294974 and e = "- 1", OF _ _ _ _ b]) (simp_all add: pow2_def)
  then show ?thesis unfolding math_cos_def x_def [symmetric] .
qed

lemma sin_half_dlon: "math_sin (221069930979055 / 2 ^ 47) = 1"
proof -
  define x :: real where "x = 221069930979055 / 2 ^ 47"
  define p where "p = x - x ^ 3 / 6 + x ^ 5 / 120 - x ^ 7 / 5040 + x ^ 9 / 362880 - x ^ 11 / 39916800 + x ^ 13 / 6227020800 - x ^ 15 / 1307674368000 + x ^ 17 / 355687428096000 - x ^ 19 / 121645100408832000 + x ^ 21 / 51090942171709440000 - x ^ 23 / 25852016738884976640000"
  define r where "r = x ^ 24 / 620448401733239439360000"
  have x: "0 < x" unfolding x_def by simp
  have s: "\<bar>sin x - p\<bar> \<le> r" unfolding p_def r_def by (rule sin_series_24 [OF x])
  have c: "1 - 1 / 2 ^ 54 < p - r"
    unfolding p_def r_def x_def by (simp add: power_divide)
  from s c have "1 - 1 / 2 ^ 54 < sin x" by linarith
  then have "rnd (sin x) = 1" by (rule rnd_just_below_one) simp
  then show ?thesis unfolding math_sin_def x_def [symmetric] .
qed

lemma squared_sin_half_dlat: "squared (1758574199356381 / 2 ^ 53) = 5493531344743617 / 2 ^ 57"
  unfolding squared_def
  by (simp add: rnd_eval [where e = "- 5"] rne_def pow2_def)

lemma squared_one: "squared 1 = 1"
  unfolding squared_def by (simp add: rnd_one)

lemma cos_product: "rnd (8833858456364265 / 2 ^ 53 * (4416929226647487 / 2 ^ 52)) = 8663853545694517 / 2 ^ 53"
  by (simp add: rnd_eval [where e = "- 1"] rne_def pow2_def)

lemma cos_product_times_one: "rnd (8663853545694517 / 2 ^ 53 * 1) = 8663853545694517 / 2 ^ 53"
  by (simp add: rnd_eval [where e = "- 1"] rne_def pow2_def)

lemma antipode_sum: "rnd (5493531344743617 / 2 ^ 57 + 8663853545694517 / 2 ^ 53) = 4503599627370497 / 2 ^ 52"
  by (simp add: rnd_eval [where e = 0] rne_def pow2_def)

lemma one_minus_term: "rnd (1 - (4503599627370497 / 2 ^ 52)) = - (1 / 2 ^ 52)"
  by (simp add: rnd_eval [where e = "- 52"] rne_def pow2_def)

text \<open>
  The haversine term at these coordinates is the float after 1: the squared sine of half the
  latitude difference and the product of the cosines add up to \<open>1 + 17/2\<^sup>5\<^sup>7\<close>, just above
  the midpoint \<open>1 + 2\<^sup>-\<^sup>5\<^sup>3\<close> of the two floats.
\<close>

lemma antipode_term:
  "haversine_a (rnd (- 11.2587999)) (rnd (- 104.219601)) (rnd 11.2588) (rnd 75.7804) =
     4503599627370497 / 2 ^ 52"
  unfolding haversine_a_def Let_def
  by (simp only: float_antipode_lat float_antipode_lon float_kozhikode_lat float_kozhikode_lon
      radians_antipode_lat radians_antipode_lon radians_kozhikode_lat radians_kozhikode_lon
      antipode_dlat antipode_dlon antipode_half_dlat antipode_half_dlon
      sin_half_dlat sin_half_dlon cos_antipode_lat cos_kozhikode_lat
      squared_sin_half_dlat squared_one cos_product cos_product_times_one antipode_sum)

lemma antipode_haversine:
  "haversine_distance (rnd (- 11.2587999)) (rnd (- 104.219601)) (rnd 11.2588) (rnd 75.7804) =
     Inl ValueError"
proof -
  have "math_sqrt (4503599627370497 / 2 ^ 52) = Inr (rnd (sqrt (4503599627370497 / 2 ^ 52)))"
    by (simp add: math_sqrt_def)
  moreover have "math_sqrt (- (1 / 2 ^ 52)) = Inl ValueError"
    by (simp add: math_sqrt_def)
  ultimately show ?thesis
    unfolding haversine_distance_def antipode_term Let_def one_minus_term
    by (simp only: bindE.simps)
qed

section \<open>Properties of the feature engineer\<close>

lemma distance_dict_lookup:
  assumes "distance_dict d"
  shows "numeric_slot (d ''distance_to_city'')" "numeric_slot (d ''distance_to_highway'')"
    "numeric_slot (d ''distance_to_metro'')" "numeric_slot (d ''distance_to_school'')"
    "numeric_slot (d ''distance_to_hospital'')"
    "d ''area_sqft'' = None" "d ''latitude'' = None" "d ''longitude'' = None"
    "d ''land_type_encoded'' = None" "d ''road_width'' = None" "d ''electricity'' = None"
    "d ''water_supply'' = None" "d ''state'' = None" "d ''district'' = None"
  using assms unfolding distance_dict_def by auto

lemma create_features_slots:
  assumes "create_features g a = Inr f"
  shows "all_slots_numeric f"
proof -
  obtain d where d: "distance_dict d"
    and f: "f = (direct_features a ++ d)(''avg_price_in_area'' \<mapsto>
           Num (get_avg_price_in_area (district a) (state a)))"
    using create_features_shape [OF assms] by blast
  from d obtain c hw m s h where "d =
        [''distance_to_city'' \<mapsto> Num c, ''distance_to_highway'' \<mapsto> Num hw,
         ''distance_to_metro'' \<mapsto> Num m, ''distance_to_school'' \<mapsto> Num s,
         ''distance_to_hospital'' \<mapsto> Num h]"
    unfolding distance_dict_def by blast
  then show ?thesis
    unfolding all_slots_numeric_def feature_names_def f
    by (simp add: map_add_def direct_features_def)
qed

lemma create_features_direct:
  assumes "create_features g a = Inr f"
  shows "f ''land_type_encoded'' =
           Some (Num (case land_type_map (land_type a) of None \<Rightarrow> 1 | Some c \<Rightarrow> c))"
    "f ''road_width'' = Some (Num (road_width_or_default (road_width a)))"
    "f ''electricity'' = Some (Num (if electricity a then 1 else 0))"
    "f ''water_supply'' = Some (Num (if water_supply a then 1 else 0))"
    "f ''state'' = Some (Str (state a))"
    "f ''district'' = Some (Str (district a))"
    "f ''area_sqft'' = Some (Num (area_sqft a))"
proof -
  obtain d where d: "distance_dict d"
    and f: "f = (direct_features a ++ d)(''avg_price_in_area'' \<mapsto>
           Num (get_avg_price_in_area (district a) (state a)))"
    using create_features_shape [OF assms] by blast
  show "f ''land_type_encoded'' =
           Some (Num (case land_type_map (land_type a) of None \<Rightarrow> 1 | Some c \<Rightarrow> c))"
    "f ''road_width'' = Some (Num (road_width_or_default (road_width a)))"
    "f ''electricity'' = Some (Num (if electricity a then 1 else 0))"
    "f ''water_supply'' = Some (Num (if water_supply a then 1 else 0))"
    "f ''state'' = Some (Str (state a))"
    "f ''district'' = Some (Str (district a))"
    "f ''area_sqft'' = Some (Num (area_sqft a))"
    unfolding f using distance_dict_lookup [OF d]
    by (simp_all add: map_add_def direct_features_def)
qed

lemma every_call_fails_calculate:
  assumes "every_call_fails g"
  shows "calculate_distances g lat lng dn = estimate_distances lat lng dn"
proof -
  let ?cc = "case city_centers dn of None \<Rightarrow> (lat, lng) | Some c \<Rightarrow> c"
  from assms obtain e where "distance_matrix g (lat, lng) ?cc ''driving'' = Inl e"
    unfolding every_call_fails_def by (metis isl_def)
  then have "city_distance g lat lng ?cc = Inl e"
    by (simp add: city_distance_def)
  then show ?thesis by (simp add: calculate_distances_def Let_def)
qed

lemma chennai_center: "city_centers ''Chennai'' = Some (rnd 13.0827, rnd 80.2707)"
  by (simp add: city_centers_def)



lemma kozhikode_center: "city_centers ''Kozhikode'' = Some (rnd 11.2588, rnd 75.7804)"
  by (simp add: city_centers_def)

lemma antipode_estimate:
  "estimate_distances (rnd (- 11.2587999)) (rnd (- 104.219601)) ''Kozhikode'' = Inl ValueError"
  unfolding estimate_distances_def kozhikode_center Let_def
  by (simp only: option.case fst_conv snd_conv antipode_haversine bindE.simps)

lemma antipode_valid: "valid_attributes antipode_request"
  unfolding valid_attributes_def antipode_request_def
  using float_antipode_lat float_antipode_lon by simp

text \<open>
  Claim C7, at a valid property. The claim has \<^verbatim>\<open>create_features\<close> return, for every
  valid property, a feature vector with its thirteen numeric slots. For a property of the
  Kozhikode district at latitude \<open>-11.2587999\<close> and longitude \<open>-104.219601\<close> (a positive
  area, coordinates of the globe) the rounded haversine term is \<open>1 + 2\<^sup>-\<^sup>5\<^sup>2\<close>,
  \<^verbatim>\<open>math.sqrt(1 - a)\<close> raises ValueError, and \<^verbatim>\<open>create_features\<close> raises it too, without a
  mapping service and with one whose calls fail; no feature vector is returned.
\<close>

theorem create_features_raises_near_antipode:
  "valid_attributes antipode_request \<and>
   haversine_a (latitude antipode_request) (longitude antipode_request)
     (rnd 11.2588) (rnd 75.7804) = 1 + 1 / 2 ^ 52 \<and>
   create_features None antipode_request = Inl ValueError \<and>
   create_features (Some timeout_client) antipode_request = Inl ValueError"
proof -
  have e: "estimate_distances (latitude antipode_request) (longitude antipode_request)
      (district antipode_request) = Inl ValueError"
    unfolding antipode_request_def using antipode_estimate by simp
  have a: "haversine_a (latitude antipode_request) (longitude antipode_request)
     (rnd 11.2588) (rnd 75.7804) = 1 + 1 / 2 ^ 52"
    unfolding antipode_request_def using antipode_term by simp
  have f: "every_call_fails timeout_client"
    by (simp add: every_call_fails_def timeout_client_def)
  have n: "create_features None antipode_request = Inl ValueError"
    unfolding create_features_def Let_def e by simp
  have s: "create_features (Some timeout_client) antipode_request = Inl ValueError"
    by (simp add: create_features_def Let_def every_call_fails_calculate [OF f] e)
  from antipode_valid a n s show ?thesis by (intro conjI)
qed

text \<open>Whenever \<^verbatim>\<open>create_features\<close> returns, the thirteen slots are numeric: lemma
  \<open>create_features_slots\<close> above.\<close>

text \<open>The direct slots other than the road width are as the specification has them.\<close>

lemma land_type_codes:
  "land_type_map ''RESIDENTIAL'' = Some 1" "land_type_map ''COMMERCIAL'' = Some 2"
  "land_type_map ''AGRICULTURAL'' = Some 3" "land_type_map ''INDUSTRIAL'' = Some 4"
  "t \<notin> {''RESIDENTIAL'', ''COMMERCIAL'', ''AGRICULTURAL'', ''INDUSTRIAL''} \<Longrightarrow>
     land_type_map t = None"
  by (simp_all add: land_type_map_def)

lemma road_width_slot:
  "road_width_or_default None = 6"
  "w \<noteq> 0 \<Longrightarrow> road_width_or_default (Some w) = w"
  "road_width_or_default (Some 0) = 6"
  by (simp_all add: road_width_or_default_def)

lemma chennai_estimate:
  "estimate_distances (rnd 13.0827) (rnd 80.2707) ''Chennai'' =
     Inr [''distance_to_city'' \<mapsto> Num 0, ''distance_to_highway'' \<mapsto> Num 5,
          ''distance_to_metro'' \<mapsto> Num 10, ''distance_to_school'' \<mapsto> Num 2,
          ''distance_to_hospital'' \<mapsto> Num 3]"
  by (simp add: estimate_distances_def chennai_center haversine_distance_same)

text \<open>
  Claim C8, at a road width of zero. The claim has the road-width slot equal the supplied
  width whenever one is supplied; \<^verbatim>\<open>road_width or 6.0\<close> replaces a supplied \<open>0.0\<close> by
  \<open>6.0\<close>, since zero is falsy. For the scenario's request with road width \<open>0\<close> the slot
  holds \<open>6\<close>.
\<close>

theorem zero_road_width_replaced_by_default:
  "\<exists>f. create_features None (chennai_request\<lparr>road_width := Some 0\<rparr>) = Inr f \<and>
       f ''road_width'' = Some (Num 6) \<and> f ''road_width'' \<noteq> Some (Num 0)"
proof -
  let ?a = "chennai_request\<lparr>road_width := Some 0\<rparr>"
  have "\<exists>f. create_features None ?a = Inr f"
    using chennai_estimate by (simp add: create_features_def Let_def chennai_request_def)
  then obtain f where f: "create_features None ?a = Inr f" ..
  from create_features_direct(2) [OF f] have "f ''road_width'' = Some (Num 6)"
    by (simp add: road_width_or_default_def)
  with f show ?thesis by auto
qed

text \<open>
  Claim C9. The haversine distance is symmetric in its two points and zero between a point
  and itself. Hence the distances estimated without the mapping service have
  \<open>distance_to_city = 0\<close> when the coordinates are those of the district's entry in the
  table of city centres, and also when the district is not in the table.
\<close>

theorem haversine_symmetric_and_zero:
  "haversine_distance la1 lo1 la2 lo2 = haversine_distance la2 lo2 la1 lo1 \<and>
   haversine_distance la lo la lo = Inr 0 \<and>
   (city_centers dn = Some (la, lo) \<longrightarrow>
      (\<exists>d. estimate_distances la lo dn = Inr d \<and> d ''distance_to_city'' = Some (Num 0))) \<and>
   (city_centers dn' = None \<longrightarrow>
      (\<exists>d. estimate_distances la lo dn' = Inr d \<and> d ''distance_to_city'' = Some (Num 0)))"
  using haversine_distance_sym [of la1 lo1 la2 lo2] haversine_distance_same
  by (auto simp: estimate_distances_def Let_def)

theorem haversine_symmetric_and_zero_witness:
  "city_centers ''Chennai'' = Some (rnd 13.0827, rnd 80.2707) \<and>
   city_centers ''Thrissur'' = None \<and>
   haversine_distance (rnd 10.5276) (rnd 76.2144) (rnd 13.0827) (rnd 80.2707) =
     haversine_distance (rnd 13.0827) (rnd 80.2707) (rnd 10.5276) (rnd 76.2144) \<and>
   (\<exists>d. estimate_distances (rnd 13.0827) (rnd 80.2707) ''Chennai'' = Inr d \<and>
        d ''distance_to_city'' = Some (Num 0)) \<and>
   (\<exists>d. estimate_distances (rnd 13.0827) (rnd 80.2707) ''Thrissur'' = Inr d \<and>
        d ''distance_to_city'' = Some (Num 0))"
  using haversine_symmetric_and_zero
    [where ?la1.0 = "rnd 10.5276" and ?lo1.0 = "rnd 76.2144" and ?la2.0 = "rnd 13.0827"
       and ?lo2.0 = "rnd 80.2707" and la = "rnd 13.0827" and lo = "rnd 80.2707"
       and dn = "''Chennai''" and dn' = "''Thrissur''"]
    chennai_center
  by (simp add: city_centers_def)

section \<open>Properties of the price estimator\<close>

lemma numeric_slotD: "numeric_slot v \<Longrightarrow> \<exists>r. v = Some (Num r)"
  by (cases v rule: numeric_slot.cases) simp_all

lemma all_slots_numericD:
  assumes "all_slots_numeric f"
  shows "\<exists>r. f ''area_sqft'' = Some (Num r)"
    "\<exists>r. f ''distance_to_city'' = Some (Num r)"
    "\<exists>r. f ''distance_to_metro'' = Some (Num r)"
  using assms unfolding all_slots_numeric_def feature_names_def
  by (simp_all add: numeric_slotD)

lemma get_less_numeric: "f k = Some (Num r) \<Longrightarrow> get_less f k dflt bound = Inr (r < bound)"
  by (simp add: get_less_def)

lemma adjusted_base_returns:
  assumes "all_slots_numeric f"
  shows "\<exists>b. adjusted_base f = Inr b"
proof -
  from all_slots_numericD [OF assms] obtain c m where
    "f ''distance_to_city'' = Some (Num c)" "f ''distance_to_metro'' = Some (Num m)"
    by blast
  then show ?thesis
    by (simp add: adjusted_base_def get_less_numeric Let_def)
qed

lemma heuristic_prediction_returns:
  assumes "all_slots_numeric f"
  shows "\<exists>r. heuristic_prediction f = Inr r"
proof -
  obtain b where "adjusted_base f = Inr b" using adjusted_base_returns [OF assms] by blast
  moreover obtain a where "f ''area_sqft'' = Some (Num a)"
    using all_slots_numericD(1) [OF assms] by blast
  ultimately show ?thesis by (simp add: heuristic_prediction_def Let_def)
qed

lemma heuristic_prediction_fields:
  assumes "heuristic_prediction f = Inr r"
  shows "\<exists>b a. adjusted_base f = Inr b \<and> f ''area_sqft'' = Some (Num a) \<and>
           price r = fmul b (Fin a) \<and> price_per_sqft r = b"
    "confidence r = Fin (rnd 0.6)"
    "price_min r = fmul (price r) (Fin (rnd 0.8))"
    "price_max r = fmul (price r) (Fin (rnd 1.2))"
proof -
  from assms obtain b where b: "adjusted_base f = Inr b"
    unfolding heuristic_prediction_def bindE_Inr_iff by blast
  with assms obtain a where a: "f ''area_sqft'' = Some (Num a)"
    unfolding heuristic_prediction_def
    by (auto split: option.splits pyval.splits)
  from assms have r: "r = \<lparr>price = fmul b (Fin a), price_per_sqft = b,
      confidence = Fin (rnd 0.6),
      price_min = fmul (fmul b (Fin a)) (Fin (rnd 0.8)),
      price_max = fmul (fmul b (Fin a)) (Fin (rnd 1.2)),
      factors =
        [''location'' \<mapsto> ''moderate_impact'',
         ''infrastructure'' \<mapsto>
            (if truthy (f ''electricity'') then ''positive'' else ''needs_improvement''),
         ''note'' \<mapsto>
            ''Prediction based on market averages (model training in progress)'']\<rparr>"
    unfolding heuristic_prediction_def b by (simp add: a Let_def)
  show "\<exists>b a. adjusted_base f = Inr b \<and> f ''area_sqft'' = Some (Num a) \<and>
           price r = fmul b (Fin a) \<and> price_per_sqft r = b"
    using a b r by simp
  show "confidence r = Fin (rnd 0.6)" "price_min r = fmul (price r) (Fin (rnd 0.8))"
    "price_max r = fmul (price r) (Fin (rnd 1.2))"
    using r by simp_all
qed

text \<open>The adjusted base price is a finite float: the table holds prices up to 4500.\<close>

lemma base_price_bounds: "2000 \<le> base_price f \<and> base_price f \<le> 4500"
  by (auto simp: base_price_def base_prices_def Let_def
      split: option.splits pyval.splits if_splits)

lemma fmul_factor_finite:
  assumes "\<bar>x\<bar> \<le> 2 ^ 60" "\<bar>c\<bar> \<le> 2"
  shows "\<exists>y. fmul (Fin x) (Fin c) = Fin y \<and> \<bar>y\<bar> \<le> 4 * \<bar>x\<bar>"
proof -
  have "\<bar>x * c\<bar> = \<bar>x\<bar> * \<bar>c\<bar>" by (rule abs_mult)
  also have "\<dots> \<le> \<bar>x\<bar> * 2" using assms(2) by (intro mult_left_mono) simp_all
  finally have xc: "\<bar>x * c\<bar> \<le> 2 * \<bar>x\<bar>" by simp
  with assms(1) have "\<bar>x * c\<bar> \<le> 2 ^ 64" by simp
  then have "fmul (Fin x) (Fin c) = Fin (rnd (x * c))" by (rule fmul_moderate)
  moreover have "\<bar>rnd (x * c)\<bar> \<le> 4 * \<bar>x\<bar>" using rnd_abs_le [of "x * c"] xc by linarith
  ultimately show ?thesis by blast
qed

lemma optional_factor_finite:
  assumes "\<bar>x\<bar> \<le> 2 ^ 58" "\<bar>c\<bar> \<le> 2"
  shows "\<exists>y. (if t then fmul (Fin x) (Fin c) else Fin x) = Fin y \<and> \<bar>y\<bar> \<le> 4 * \<bar>x\<bar>"
proof -
  from assms(1) have "\<bar>x\<bar> \<le> 2 ^ 60" by simp
  from fmul_factor_finite [OF this assms(2)] show ?thesis by (cases t) auto
qed

lemma adjusted_base_finite:
  assumes "adjusted_base f = Inr v"
  shows "\<exists>b. v = Fin b"
proof -
  from assms obtain nc nm where v: "v =
      (let b0 = Fin (base_price f);
           b1 = (if nc then fmul b0 (Fin (rnd 1.3)) else b0);
           b2 = (if nm then fmul b1 (Fin (rnd 1.2)) else b1)
       in if truthy (f ''electricity'') \<and> truthy (f ''water_supply'')
          then fmul b2 (Fin (rnd 1.1)) else b2)"
    unfolding adjusted_base_def bindE_Inr_iff by (auto simp: Let_def)
  have b0: "\<bar>base_price f\<bar> \<le> 4500" using base_price_bounds [of f] by simp
  have c: "\<bar>rnd 1.3\<bar> \<le> 2" "\<bar>rnd 1.2\<bar> \<le> 2" "\<bar>rnd 1.1\<bar> \<le> 2"
    unfolding float_1_3 float_1_2 float_1_1 by simp_all
  from b0 have "\<bar>base_price f\<bar> \<le> 2 ^ 58" by simp
  from optional_factor_finite [OF this c(1), of nc] obtain y1 where
    y1: "(if nc then fmul (Fin (base_price f)) (Fin (rnd 1.3)) else Fin (base_price f)) = Fin y1"
      "\<bar>y1\<bar> \<le> 4 * \<bar>base_price f\<bar>" by blast
  from y1(2) b0 have "\<bar>y1\<bar> \<le> 2 ^ 58" by simp
  from optional_factor_finite [OF this c(2), of nm] obtain y2 where
    y2: "(if nm then fmul (Fin y1) (Fin (rnd 1.2)) else Fin y1) = Fin y2"
      "\<bar>y2\<bar> \<le> 4 * \<bar>y1\<bar>" by blast
  from y2(2) y1(2) b0 have "\<bar>y2\<bar> \<le> 2 ^ 58" by simp
  from optional_factor_finite [OF this c(3),
      of "truthy (f ''electricity'') \<and> truthy (f ''water_supply'')"] obtain y3 where
    y3: "(if truthy (f ''electricity'') \<and> truthy (f ''water_supply'')
          then fmul (Fin y2) (Fin (rnd 1.1)) else Fin y2) = Fin y3" by blast
  have "v = Fin y3" unfolding v Let_def y1(1) y2(1) y3 ..
  then show ?thesis ..
qed

lemma statistical_fields:
  assumes "statistical est f = Inr r"
  shows "confidence r = calculate_confidence f"
    "price_min r = fsub (price r) (fmul (price r) (Fin (rnd 0.15)))"
    "price_max r = fadd (price r) (fmul (price r) (Fin (rnd 0.15)))"
    "np_divide (price r) (f ''area_sqft'') = Inr (price_per_sqft r)"
    "est \<noteq> Untrained"
proof -
  obtain sc rg where est: "est = Trained sc rg"
    using assms by (cases est) (simp_all add: statistical_def)
  from assms obtain p kf q where
    "np_divide p (f ''area_sqft'') = Inr q"
    "r = \<lparr>price = p, price_per_sqft = q, confidence = calculate_confidence f,
          price_min = fsub p (fmul p (Fin (rnd 0.15))),
          price_max = fadd p (fmul p (Fin (rnd 0.15))),
          factors = kf\<rparr>"
    unfolding est statistical_def by (auto simp: bindE_Inr_iff Let_def)
  then show "confidence r = calculate_confidence f"
    "price_min r = fsub (price r) (fmul (price r) (Fin (rnd 0.15)))"
    "price_max r = fadd (price r) (fmul (price r) (Fin (rnd 0.15)))"
    "np_divide (price r) (f ''area_sqft'') = Inr (price_per_sqft r)"
    by simp_all
  show "est \<noteq> Untrained" using est by simp
qed

lemma predict_cases:
  "predict est f = Inr r \<Longrightarrow> statistical est f = Inr r \<or> heuristic_prediction f = Inr r"
  by (auto simp: predict_def split: sum.splits)

lemma predict_statistical: "statistical est f = Inr r \<Longrightarrow> predict est f = Inr r"
  by (simp add: predict_def)

lemma predict_untrained: "predict Untrained f = heuristic_prediction f"
  by (simp add: predict_def statistical_def)

lemma chennai_features_slots: "all_slots_numeric chennai_features"
  by (simp add: all_slots_numeric_def feature_names_def chennai_features_def)

lemma chennai_create: "create_features None chennai_request = Inr chennai_features"
  using chennai_estimate
  unfolding create_features_def Let_def chennai_features_def direct_features_def
  by (simp add: chennai_request_def land_type_map_def road_width_or_default_def
      get_avg_price_in_area_def avg_prices_def)

lemma chennai_adjusted_base:
  "adjusted_base chennai_features = Inr (Fin (5720 + 1 / 2 ^ 40))"
proof -
  have "adjusted_base chennai_features =
      Inr (fmul (fmul (Fin 4000) (Fin (rnd 1.3))) (Fin (rnd 1.1)))"
    by (simp add: adjusted_base_def get_less_def chennai_features_def base_price_def
        base_prices_def Let_def)
  then show ?thesis by (simp only: mul_4000_1_3 mul_5200_1_1)
qed

lemma chennai_heuristic:
  "heuristic_prediction chennai_features =
     Inr \<lparr>price = Fin (5720000 + 1 / 2 ^ 30),
          price_per_sqft = Fin (5720 + 1 / 2 ^ 40),
          confidence = Fin (rnd 0.6),
          price_min = Fin (4576000 + 1 / 2 ^ 30),
          price_max = Fin (6864000 + 1 / 2 ^ 30),
          factors =
            [''location'' \<mapsto> ''moderate_impact'', ''infrastructure'' \<mapsto> ''positive'',
             ''note'' \<mapsto> ''Prediction based on market averages (model training in progress)'']\<rparr>"
proof -
  have a: "chennai_features ''area_sqft'' = Some (Num 1000)"
    and e: "truthy (chennai_features ''electricity'')"
    by (simp_all add: chennai_features_def)
  show ?thesis
    unfolding heuristic_prediction_def chennai_adjusted_base
    by (simp only: bindE.simps a option.case pyval.case Let_def
        mul_5720_1000 mul_price_0_8 mul_price_1_2 e if_True)
qed

lemma area_only_adjusted_base: "adjusted_base area_only_features = Inr (Fin 3000)"
  by (simp add: adjusted_base_def get_less_def area_only_features_def base_price_def
      base_prices_def Let_def)

lemma mul_3000_1000: "fmul (Fin 3000) (Fin 1000) = Fin 3000000"
proof -
  have r: "rnd (3000 * 1000) = 3000000"
    by (simp add: rnd_eval [where e = 21] rne_def pow2_def)
  have "fmul (Fin 3000) (Fin 1000) = Fin (rnd (3000 * 1000))"
    by (rule fmul_moderate) simp
  then show ?thesis unfolding r .
qed

text \<open>The statistical branch of an estimator that always predicts \<open>p\<close>.\<close>

lemma constant_statistical:
  assumes "unit_scaler (feature_vector f) = Inr xs"
    and "analyze_factors f (Fin p) = Inr kf"
    and "f ''area_sqft'' = Some (Num a)"
  shows "statistical (constant_estimator p) f =
     Inr \<lparr>price = Fin p, price_per_sqft = fdiv (Fin p) (Fin a),
          confidence = calculate_confidence f,
          price_min = fsub (Fin p) (fmul (Fin p) (Fin (rnd 0.15))),
          price_max = fadd (Fin p) (fmul (Fin p) (Fin (rnd 0.15))),
          factors = kf\<rparr>"
proof -
  have nd: "np_divide (Fin p) (f ''area_sqft'') = Inr (fdiv (Fin p) (Fin a))"
    by (simp add: np_divide_def assms(3))
  show ?thesis
    unfolding statistical_def constant_estimator_def
    by (simp only: estimator.case assms(1,2) bindE.simps Let_def nd)
qed

lemma chennai_statistical:
  "statistical (constant_estimator p) chennai_features =
     Inr \<lparr>price = Fin p, price_per_sqft = fdiv (Fin p) (Fin 1000),
          confidence = calculate_confidence chennai_features,
          price_min = fsub (Fin p) (fmul (Fin p) (Fin (rnd 0.15))),
          price_max = fadd (Fin p) (fmul (Fin p) (Fin (rnd 0.15))),
          factors = [''location'' \<mapsto> ''high_value_area'',
                     ''infrastructure'' \<mapsto> ''well_developed'']\<rparr>"
proof -
  have "\<exists>xs. unit_scaler (feature_vector chennai_features) = Inr xs"
    by (simp add: feature_vector_def feature_names_def chennai_features_def)
  then obtain xs where xs: "unit_scaler (feature_vector chennai_features) = Inr xs" ..
  have af: "analyze_factors chennai_features (Fin p) =
      Inr [''location'' \<mapsto> ''high_value_area'', ''infrastructure'' \<mapsto> ''well_developed'']"
    by (simp add: analyze_factors_def get_less_def chennai_features_def Let_def)
  have a: "chennai_features ''area_sqft'' = Some (Num 1000)"
    by (simp add: chennai_features_def)
  show ?thesis by (rule constant_statistical [OF xs af a])
qed

lemma tiny_area_statistical:
  "statistical (constant_estimator p) tiny_area_features =
     Inr \<lparr>price = Fin p, price_per_sqft = fdiv (Fin p) (Fin (1 / 2 ^ 1010)),
          confidence = calculate_confidence tiny_area_features,
          price_min = fsub (Fin p) (fmul (Fin p) (Fin (rnd 0.15))),
          price_max = fadd (Fin p) (fmul (Fin p) (Fin (rnd 0.15))),
          factors = [''location'' \<mapsto> ''high_value_area'',
                     ''infrastructure'' \<mapsto> ''well_developed'']\<rparr>"
proof -
  have "\<exists>xs. unit_scaler (feature_vector tiny_area_features) = Inr xs"
    by (simp add: feature_vector_def feature_names_def tiny_area_features_def
        chennai_features_def)
  then obtain xs where xs: "unit_scaler (feature_vector tiny_area_features) = Inr xs" ..
  have af: "analyze_factors tiny_area_features (Fin p) =
      Inr [''location'' \<mapsto> ''high_value_area'', ''infrastructure'' \<mapsto> ''well_developed'']"
    by (simp add: analyze_factors_def get_less_def tiny_area_features_def
        chennai_features_def Let_def)
  have a: "tiny_area_features ''area_sqft'' = Some (Num (1 / 2 ^ 1010))"
    by (simp add: tiny_area_features_def)
  show ?thesis by (rule constant_statistical [OF xs af a])
qed

text \<open>\<^verbatim>\<open>5720000.0 / 2**-1010\<close> is \<open>5720000 \<times> 2\<^sup>1\<^sup>0\<^sup>1\<^sup>0\<close>, beyond \<open>2\<^sup>1\<^sup>0\<^sup>2\<^sup>4\<close>.\<close>

lemma quotient_overflows: "fdiv (Fin 5720000) (Fin (1 / 2 ^ 1010)) = PInf"
proof -
  have x: "(5720000::real) / (1 / 2 ^ 1010) = 5720000 * 2 ^ 1010" by simp
  have r: "rnd (5720000 * 2 ^ 1010) = 5720000 * 2 ^ 1010"
    by (simp add: rnd_eval [where e = 1032] rne_def pow2_def)
  have "pow2 1024 \<le> \<bar>5720000 * 2 ^ 1010 :: real\<bar>" by (simp add: pow2_def)
  then have "to_float (5720000 * 2 ^ 1010) = PInf"
    unfolding to_float_def Let_def r by simp
  then show ?thesis unfolding fdiv.simps x by simp
qed

lemma calculate_confidence_values:
  "calculate_confidence f =
     (if f ''distance_to_city'' \<noteq> None
      then (if f ''avg_price_in_area'' \<noteq> None then Fin (rnd 0.95)
            else Fin (7205759403792793 / 2 ^ 53))
      else (if f ''avg_price_in_area'' \<noteq> None then Fin (rnd 0.85) else Fin (rnd 0.7)))"
proof -
  have m1: "py_min (Fin (rnd 0.95)) (Fin (rnd 0.95)) = Fin (rnd 0.95)"
    unfolding py_min_Fin by simp
  have m2: "py_min (Fin (7205759403792793 / 2 ^ 53)) (Fin (rnd 0.95)) =
      Fin (7205759403792793 / 2 ^ 53)"
    unfolding py_min_Fin float_0_95 by simp
  have m3: "py_min (Fin (rnd 0.85)) (Fin (rnd 0.95)) = Fin (rnd 0.85)"
    unfolding py_min_Fin float_0_95 float_0_85 by simp
  have m4: "py_min (Fin (rnd 0.7)) (Fin (rnd 0.95)) = Fin (rnd 0.7)"
    unfolding py_min_Fin float_0_95 float_0_7 by simp
  show ?thesis
  proof (cases "f ''distance_to_city'' = None")
    case c: True
    show ?thesis
    proof (cases "f ''avg_price_in_area'' = None")
      case True
      with c show ?thesis
        unfolding calculate_confidence_def Let_def
        by (simp only: not_True_eq_False if_False m4 refl)
    next
      case False
      with c show ?thesis
        unfolding calculate_confidence_def Let_def
        by (simp only: not_True_eq_False if_False if_True simp_thms add_0_7_0_15 m3)
    qed
  next
    case c: False
    show ?thesis
    proof (cases "f ''avg_price_in_area'' = None")
      case True
      with c show ?thesis
        unfolding calculate_confidence_def Let_def
        by (simp only: not_True_eq_False if_False if_True simp_thms add_0_7_0_1 m2)
    next
      case False
      with c show ?thesis
        unfolding calculate_confidence_def Let_def
        by (simp only: if_True simp_thms add_0_7_0_1_0_15 m1)
    qed
  qed
qed

lemma calculate_confidence_range:
  "\<exists>c. calculate_confidence f = Fin c \<and> rnd 0.7 \<le> c \<and> c \<le> rnd 0.95"
proof -
  have v: "rnd 0.7 \<le> rnd 0.7" "rnd 0.7 \<le> rnd 0.95" "rnd 0.95 \<le> rnd 0.95"
    "rnd 0.7 \<le> rnd 0.85" "rnd 0.85 \<le> rnd 0.95"
    "rnd 0.7 \<le> 7205759403792793 / 2 ^ 53" "7205759403792793 / 2 ^ 53 \<le> rnd 0.95"
    unfolding float_0_7 float_0_95 float_0_85 by simp_all
  have "calculate_confidence f = Fin (rnd 0.95) \<or>
      calculate_confidence f = Fin (7205759403792793 / 2 ^ 53) \<or>
      calculate_confidence f = Fin (rnd 0.85) \<or> calculate_confidence f = Fin (rnd 0.7)"
    unfolding calculate_confidence_values by (simp only: if_split_eq1 simp_thms) blast
  with v show ?thesis by blast
qed

text \<open>The interval bounds at the prices \<open>3\<close> and \<open>2\<^sup>5\<^sup>1 + 3\<close>.\<close>

lemma mul_3_0_15: "fmul (Fin 3) (Fin (rnd 0.15)) = Fin (2026619832316723 / 2 ^ 52)"
proof -
  have r: "rnd (3 * (5404319552844595 / 2 ^ 55)) = 2026619832316723 / 2 ^ 52"
    by (simp add: rnd_eval [where e = "- 2"] rne_def pow2_def)
  have "fmul (Fin 3) (Fin (5404319552844595 / 2 ^ 55)) =
      Fin (rnd (3 * (5404319552844595 / 2 ^ 55)))"
    by (rule fmul_moderate) simp
  then show ?thesis unfolding float_0_15 r .
qed

lemma add_3_fifteen:
  "fadd (Fin 3) (Fin (2026619832316723 / 2 ^ 52)) = Fin (3884354678607053 / 2 ^ 50)"
proof -
  have r: "rnd (3 + 2026619832316723 / 2 ^ 52) = 3884354678607053 / 2 ^ 50"
    by (simp add: rnd_eval [where e = 1] rne_def pow2_def)
  have "fadd (Fin 3) (Fin (2026619832316723 / 2 ^ 52)) =
      Fin (rnd (3 + 2026619832316723 / 2 ^ 52))"
    by (rule fadd_moderate) simp
  then show ?thesis unfolding r .
qed

lemma mul_1_15_3: "fmul (Fin (rnd 1.15)) (Fin 3) = Fin (7768709357214105 / 2 ^ 51)"
proof -
  have r: "rnd (5179139571476070 / 2 ^ 52 * 3) = 7768709357214105 / 2 ^ 51"
    by (simp add: rnd_eval [where e = 1] rne_def pow2_def)
  have "fmul (Fin (5179139571476070 / 2 ^ 52)) (Fin 3) =
      Fin (rnd (5179139571476070 / 2 ^ 52 * 3))"
    by (rule fmul_moderate) simp
  then show ?thesis unfolding float_1_15 r .
qed

lemma mul_big_0_15:
  "fmul (Fin 2251799813685251) (Fin (rnd 0.15)) = Fin (2702159776422301 / 8)"
proof -
  have r: "rnd (2251799813685251 * (5404319552844595 / 2 ^ 55)) = 2702159776422301 / 8"
    by (simp add: rnd_eval [where e = 48] rne_def pow2_def)
  have "fmul (Fin 2251799813685251) (Fin (5404319552844595 / 2 ^ 55)) =
      Fin (rnd (2251799813685251 * (5404319552844595 / 2 ^ 55)))"
    by (rule fmul_moderate) simp
  then show ?thesis unfolding float_0_15 r .
qed

lemma sub_big_fifteen:
  "fsub (Fin 2251799813685251) (Fin (2702159776422301 / 8)) = Fin (3828059683264927 / 2)"
proof -
  have r: "rnd (2251799813685251 - 2702159776422301 / 8) = 3828059683264927 / 2"
    by (simp add: rnd_eval [where e = 50] rne_def pow2_def)
  have "fsub (Fin 2251799813685251) (Fin (2702159776422301 / 8)) =
      Fin (rnd (2251799813685251 - 2702159776422301 / 8))"
    by (rule fsub_moderate) simp
  then show ?thesis unfolding r .
qed

lemma rnd_big_0_85: "rnd (0.85 * 2251799813685251) = 7656119366529853 / 4"
  by (simp add: rnd_eval [where e = 50] rne_def pow2_def)

lemma mul_0_85_big:
  "fmul (Fin (rnd 0.85)) (Fin 2251799813685251) = Fin (7656119366529853 / 4)"
proof -
  have r: "rnd (7656119366529843 / 2 ^ 53 * 2251799813685251) = 7656119366529853 / 4"
    by (simp add: rnd_eval [where e = 50] rne_def pow2_def)
  have "fmul (Fin (7656119366529843 / 2 ^ 53)) (Fin 2251799813685251) =
      Fin (rnd (7656119366529843 / 2 ^ 53 * 2251799813685251))"
    by (rule fmul_moderate) simp
  then show ?thesis unfolding float_0_85 r .
qed

lemma three_max_not_exact:
  "fadd (Fin 3) (fmul (Fin 3) (Fin (rnd 0.15))) \<noteq> Fin (1.15 * 3)"
  "fadd (Fin 3) (fmul (Fin 3) (Fin (rnd 0.15))) \<noteq> fmul (Fin (rnd 1.15)) (Fin 3)"
  unfolding mul_3_0_15 add_3_fifteen mul_1_15_3 by simp_all

lemma big_min_not_exact:
  "fsub (Fin 2251799813685251) (fmul (Fin 2251799813685251) (Fin (rnd 0.15))) \<noteq>
     Fin (0.85 * 2251799813685251)"
  "fsub (Fin 2251799813685251) (fmul (Fin 2251799813685251) (Fin (rnd 0.15))) \<noteq>
     fmul (Fin (rnd 0.85)) (Fin 2251799813685251)"
  "fsub (Fin 2251799813685251) (fmul (Fin 2251799813685251) (Fin (rnd 0.15))) \<noteq>
     Fin (rnd (0.85 * 2251799813685251))"
  unfolding mul_big_0_15 sub_big_fifteen rnd_big_0_85 mul_0_85_big by simp_all

lemma in_range_examples:
  "in_range 3" "in_range (3 / 1000)" "in_range ((5720 + 1 / 2 ^ 40) * 1000)"
  by (simp_all add: in_range_def pow2_def)

text \<open>
  Claim C1. For every feature vector whose thirteen slots are present and numeric, and for
  every estimator state (untrained, or trained with any scaler and regressor, raising or
  not), \<^verbatim>\<open>predict\<close> returns a result and raises nothing. An unfitted scaler makes the
  statistical branch raise AttributeError, and whenever the statistical branch raises, the
  result of \<^verbatim>\<open>predict\<close> is that of the heuristic branch, which itself returns.
\<close>

theorem predict_always_returns:
  "all_slots_numeric f \<Longrightarrow>
     (\<exists>r. predict est f = Inr r) \<and>
     statistical Untrained f = Inl AttributeError \<and>
     (\<forall>e. statistical est f = Inl e \<longrightarrow> predict est f = heuristic_prediction f) \<and>
     (\<exists>r. heuristic_prediction f = Inr r)"
  using heuristic_prediction_returns [of f]
  by (auto simp: predict_def statistical_def split: sum.splits)

theorem predict_always_returns_witness:
  "all_slots_numeric chennai_features \<and> (\<exists>r. predict Untrained chennai_features = Inr r) \<and>
   (\<exists>r. predict (Trained (\<lambda>vs. Inl ValueError) (\<lambda>xs. Inr (Fin 0))) chennai_features = Inr r)"
  using predict_always_returns [of chennai_features Untrained]
    predict_always_returns
      [of chennai_features "Trained (\<lambda>vs. Inl ValueError) (\<lambda>xs. Inr (Fin 0))"]
    chennai_features_slots by simp

text \<open>
  Claim C2, as stated: for the scenario's request, without a mapping service and with an
  untrained estimator, the price per unit area is exactly 5720 and the price exactly
  5,720,000. It is not. The float \<open>1.1\<close> is \<open>4953959590107546 / 2\<^sup>5\<^sup>2\<close>, a little above
  the decimal, and \<open>5200 \<times> 1.1\<close> rounds up to the float after 5720: Python prints
  \<^verbatim>\<open>5720.000000000001\<close> and \<^verbatim>\<open>5720000.000000001\<close>.
\<close>

theorem scenario_price_not_exactly_5720:
  "\<exists>r. pipeline None Untrained chennai_request = Inr r \<and>
       price_per_sqft r \<noteq> Fin 5720 \<and> price r \<noteq> Fin 5720000"
  by (simp add: pipeline_def chennai_create predict_def statistical_def chennai_heuristic)

text \<open>
  Claim C2, amended. For the scenario's request the feature vector has
  \<open>distance_to_city = 0\<close> and \<open>distance_to_metro = 10\<close>; the untrained estimator raises
  in the statistical branch, so the heuristic branch gives the result; the price per unit
  area is \<open>4000 \<times> 1.3 \<times> 1.1\<close> in binary64 arithmetic, which is \<open>5720 + 2\<^sup>-\<^sup>4\<^sup>0\<close>; the price is
  \<open>5720000 + 2\<^sup>-\<^sup>3\<^sup>0\<close>; the confidence is the float \<open>0.6\<close>.
\<close>

theorem scenario_heuristic_result:
  "\<exists>r. create_features None chennai_request = Inr chennai_features \<and>
       statistical Untrained chennai_features = Inl AttributeError \<and>
       pipeline None Untrained chennai_request = heuristic_prediction chennai_features \<and>
       pipeline None Untrained chennai_request = Inr r \<and>
       price_per_sqft r = fmul (fmul (Fin 4000) (Fin (rnd 1.3))) (Fin (rnd 1.1)) \<and>
       price_per_sqft r = Fin (5720 + 1 / 2 ^ 40) \<and>
       price r = Fin (5720000 + 1 / 2 ^ 30) \<and>
       confidence r = Fin (rnd 0.6)"
  by (simp add: pipeline_def chennai_create predict_def statistical_def chennai_heuristic
      mul_4000_1_3 mul_5200_1_1)

text \<open>
  Claim C3. With an untrained estimator \<^verbatim>\<open>predict\<close> returns for every feature vector
  with its thirteen numeric slots, and every result it returns has confidence \<open>0.6\<close>,
  minimum \<^verbatim>\<open>price * 0.8\<close> and maximum \<^verbatim>\<open>price * 1.2\<close> of the returned price (the
  products are those of the source: float multiplication by the floats \<open>0.8\<close> and
  \<open>1.2\<close>, an infinite price included).
\<close>

theorem untrained_confidence_and_interval:
  "(all_slots_numeric f \<longrightarrow> (\<exists>r. predict Untrained f = Inr r)) \<and>
   (\<forall>r. predict Untrained f = Inr r \<longrightarrow>
      confidence r = Fin (rnd 0.6) \<and>
      price_min r = fmul (price r) (Fin (rnd 0.8)) \<and>
      price_max r = fmul (price r) (Fin (rnd 1.2)))"
proof (intro conjI impI allI)
  assume "all_slots_numeric f"
  then show "\<exists>r. predict Untrained f = Inr r"
    using heuristic_prediction_returns [of f] by (simp add: predict_def statistical_def)
next
  fix r assume "predict Untrained f = Inr r"
  then have h: "heuristic_prediction f = Inr r"
    by (simp add: predict_def statistical_def)
  show "confidence r = Fin (rnd 0.6)" "price_min r = fmul (price r) (Fin (rnd 0.8))"
    "price_max r = fmul (price r) (Fin (rnd 1.2))"
    by (rule heuristic_prediction_fields [OF h])+
qed

theorem untrained_confidence_and_interval_witness:
  "all_slots_numeric chennai_features \<and>
   (\<exists>r. predict Untrained chennai_features = Inr r \<and>
        confidence r = Fin (rnd 0.6) \<and>
        price_min r = fmul (price r) (Fin (rnd 0.8)) \<and>
        price_max r = fmul (price r) (Fin (rnd 1.2)))"
  using untrained_confidence_and_interval [of chennai_features] chennai_features_slots
  by blast

text \<open>
  Claim C4, as stated: the interval of the statistical branch is exactly
  \<open>[0.85 \<times> price, 1.15 \<times> price]\<close>. The source computes \<^verbatim>\<open>price - price * 0.15\<close> and
  \<^verbatim>\<open>price + price * 0.15\<close>, each operation rounded. For a predicted price of 3 the
  maximum is the float \<open>3.45\<close>, which is neither the real \<open>69/20\<close> nor Python's
  \<^verbatim>\<open>1.15 * 3.0\<close> (\<^verbatim>\<open>3.4499999999999997\<close>); for a predicted price of \<open>2\<^sup>5\<^sup>1 + 3\<close> the
  minimum is not even the float nearest to \<open>0.85 \<times> price\<close>.
\<close>

theorem statistical_interval_not_exact:
  "(\<exists>r. predict (constant_estimator 3) chennai_features = Inr r \<and>
        statistical (constant_estimator 3) chennai_features = Inr r \<and>
        price r = Fin 3 \<and>
        price_max r \<noteq> Fin (1.15 * 3) \<and>
        price_max r \<noteq> fmul (Fin (rnd 1.15)) (price r)) \<and>
   (\<exists>r. predict (constant_estimator 2251799813685251) chennai_features = Inr r \<and>
        statistical (constant_estimator 2251799813685251) chennai_features = Inr r \<and>
        price r = Fin 2251799813685251 \<and>
        price_min r \<noteq> Fin (0.85 * 2251799813685251) \<and>
        price_min r \<noteq> fmul (Fin (rnd 0.85)) (price r) \<and>
        price_min r \<noteq> Fin (rnd (0.85 * 2251799813685251)))"
  unfolding predict_def chennai_statistical
  using three_max_not_exact big_min_not_exact
  by (simp only: sum.case sum.inject simp_thms ex_simps result.simps)

text \<open>
  Claim C4, amended. When the statistical branch completes, its record is what
  \<^verbatim>\<open>predict\<close> returns. The confidence is \<open>0.7\<close>, plus \<open>0.1\<close> if \<open>distance_to_city\<close> is
  present, plus \<open>0.15\<close> if \<open>avg_price_in_area\<close> is present (float additions), clamped to
  at most \<open>0.95\<close>, hence a float between \<open>0.7\<close> and \<open>0.95\<close>. The interval is
  \<^verbatim>\<open>price - price * 0.15\<close> to \<^verbatim>\<open>price + price * 0.15\<close> in float arithmetic, for every
  predicted price. For a finite price of magnitude between \<open>2\<^sup>-\<^sup>1\<^sup>0\<^sup>1\<^sup>9\<close> and \<open>2\<^sup>1\<^sup>0\<^sup>2\<^sup>3\<close>,
  where nothing overflows or underflows, both bounds are finite and the interval is
  \<open>[0.85 \<times> price, 1.15 \<times> price]\<close> up to a relative error of \<open>2\<^sup>-\<^sup>5\<^sup>2\<close> of the price.
\<close>

theorem statistical_confidence_and_interval:
  "statistical est f = Inr r \<Longrightarrow>
     predict est f = Inr r \<and>
     confidence r =
       py_min (let c1 = (if f ''distance_to_city'' \<noteq> None
                         then fadd (Fin (rnd 0.7)) (Fin (rnd 0.1)) else Fin (rnd 0.7))
               in if f ''avg_price_in_area'' \<noteq> None then fadd c1 (Fin (rnd 0.15)) else c1)
              (Fin (rnd 0.95)) \<and>
     (\<exists>c. confidence r = Fin c \<and> rnd 0.7 \<le> c \<and> c \<le> rnd 0.95) \<and>
     price_min r = fsub (price r) (fmul (price r) (Fin (rnd 0.15))) \<and>
     price_max r = fadd (price r) (fmul (price r) (Fin (rnd 0.15))) \<and>
     (\<forall>p. price r = Fin p \<and> in_range p \<longrightarrow>
        (\<exists>lo hi. price_min r = Fin lo \<and> price_max r = Fin hi \<and>
           \<bar>lo - 0.85 * p\<bar> \<le> \<bar>p\<bar> / 2 ^ 52 \<and> \<bar>hi - 1.15 * p\<bar> \<le> \<bar>p\<bar> / 2 ^ 52))"
proof -
  assume s: "statistical est f = Inr r"
  note fs = statistical_fields [OF s]
  have 1: "predict est f = Inr r" by (rule predict_statistical [OF s])
  have 2: "confidence r =
       py_min (let c1 = (if f ''distance_to_city'' \<noteq> None
                         then fadd (Fin (rnd 0.7)) (Fin (rnd 0.1)) else Fin (rnd 0.7))
               in if f ''avg_price_in_area'' \<noteq> None then fadd c1 (Fin (rnd 0.15)) else c1)
              (Fin (rnd 0.95))"
    unfolding fs(1) calculate_confidence_def Let_def by (rule refl)
  have 3: "\<exists>c. confidence r = Fin c \<and> rnd 0.7 \<le> c \<and> c \<le> rnd 0.95"
    unfolding fs(1) by (rule calculate_confidence_range)
  have 4: "\<forall>p. price r = Fin p \<and> in_range p \<longrightarrow>
        (\<exists>lo hi. price_min r = Fin lo \<and> price_max r = Fin hi \<and>
           \<bar>lo - 0.85 * p\<bar> \<le> \<bar>p\<bar> / 2 ^ 52 \<and> \<bar>hi - 1.15 * p\<bar> \<le> \<bar>p\<bar> / 2 ^ 52)"
  proof (intro allI impI)
    fix p assume "price r = Fin p \<and> in_range p"
    then have p: "price r = Fin p" and r: "in_range p" by simp_all
    show "\<exists>lo hi. price_min r = Fin lo \<and> price_max r = Fin hi \<and>
           \<bar>lo - 0.85 * p\<bar> \<le> \<bar>p\<bar> / 2 ^ 52 \<and> \<bar>hi - 1.15 * p\<bar> \<le> \<bar>p\<bar> / 2 ^ 52"
      unfolding fs(2,3) p by (rule interval_error [OF r])
  qed
  from 1 2 3 4 fs(2,3) show ?thesis by (simp only: simp_thms)
qed

theorem statistical_confidence_and_interval_witness:
  "\<exists>r. statistical (constant_estimator 3) chennai_features = Inr r \<and>
       predict (constant_estimator 3) chennai_features = Inr r \<and>
       price r = Fin 3 \<and> in_range 3 \<and>
       confidence r = Fin (rnd 0.95) \<and>
       price_max r = Fin (3884354678607053 / 2 ^ 50) \<and>
       \<bar>3884354678607053 / 2 ^ 50 - 1.15 * 3\<bar> \<le> (3::real) / 2 ^ 52"
proof -
  let ?r = "\<lparr>price = Fin 3, price_per_sqft = fdiv (Fin 3) (Fin 1000),
          confidence = calculate_confidence chennai_features,
          price_min = fsub (Fin 3) (fmul (Fin 3) (Fin (rnd 0.15))),
          price_max = fadd (Fin 3) (fmul (Fin 3) (Fin (rnd 0.15))),
          factors = [''location'' \<mapsto> ''high_value_area'',
                     ''infrastructure'' \<mapsto> ''well_developed'']\<rparr>"
  have s: "statistical (constant_estimator 3) chennai_features = Inr ?r"
    by (rule chennai_statistical)
  have c: "calculate_confidence chennai_features = Fin (rnd 0.95)"
    unfolding calculate_confidence_values by (simp add: chennai_features_def)
  have a: "fadd (Fin 3) (fmul (Fin 3) (Fin (rnd 0.15))) = Fin (3884354678607053 / 2 ^ 50)"
    by (simp only: mul_3_0_15 add_3_fifteen)
  note t = statistical_confidence_and_interval [OF s]
  from t have p: "predict (constant_estimator 3) chennai_features = Inr ?r" by (rule conjunct1)
  from t in_range_examples(1) have "\<exists>lo hi. price_min ?r = Fin lo \<and> price_max ?r = Fin hi \<and>
      \<bar>lo - 0.85 * 3\<bar> \<le> \<bar>3\<bar> / 2 ^ 52 \<and> \<bar>hi - 1.15 * 3\<bar> \<le> \<bar>3\<bar> / 2 ^ 52"
    by simp
  then obtain hi where "price_max ?r = Fin hi" "\<bar>hi - 1.15 * 3\<bar> \<le> \<bar>3\<bar> / 2 ^ 52"
    by blast
  with a have "\<bar>3884354678607053 / 2 ^ 50 - 1.15 * 3\<bar> \<le> (3::real) / 2 ^ 52" by simp
  with s p c a in_range_examples(1) show ?thesis by simp
qed

text \<open>
  Claim C5, as stated: for every positive area, \<open>price_per_sqft \<times> area\<close> is the price
  within floating-point tolerance. In the statistical branch \<open>price_per_sqft\<close> is
  \<^verbatim>\<open>price / area\<close>, and the quotient overflows when the area is small enough: for a
  predicted price of 5,720,000 and the positive area \<open>2\<^sup>-\<^sup>1\<^sup>0\<^sup>1\<^sup>0\<close> it is infinite, and so
  is its product with the area, while the price is 5,720,000.
\<close>

theorem price_per_sqft_overflows:
  "\<exists>r. tiny_area_features ''area_sqft'' = Some (Num (1 / 2 ^ 1010)) \<and>
       (0::real) < 1 / 2 ^ 1010 \<and>
       predict (constant_estimator 5720000) tiny_area_features = Inr r \<and>
       statistical (constant_estimator 5720000) tiny_area_features = Inr r \<and>
       price r = Fin 5720000 \<and>
       price_per_sqft r = PInf \<and>
       fmul (price_per_sqft r) (Fin (1 / 2 ^ 1010)) = PInf \<and>
       fmul (price_per_sqft r) (Fin (1 / 2 ^ 1010)) \<noteq> price r"
proof -
  have a: "tiny_area_features ''area_sqft'' = Some (Num (1 / 2 ^ 1010))"
    by (simp add: tiny_area_features_def)
  have m: "fmul PInf (Fin (1 / 2 ^ 1010)) = PInf" by (simp add: fmul.simps)
  show ?thesis
    unfolding predict_def tiny_area_statistical quotient_overflows
    using a m by simp
qed

text \<open>
  Claim C5, amended. For every feature vector whose area is a number \<open>a > 0\<close>, every
  result of \<^verbatim>\<open>predict\<close> comes from one of the two branches (and there is one when the
  thirteen slots are numeric). In the statistical branch \<open>price_per_sqft\<close> is the float
  quotient \<^verbatim>\<open>price / a\<close>; when the price \<open>p\<close> is finite and both \<open>p\<close> and \<open>p / a\<close> have a
  magnitude between \<open>2\<^sup>-\<^sup>1\<^sup>0\<^sup>1\<^sup>9\<close> and \<open>2\<^sup>1\<^sup>0\<^sup>2\<^sup>3\<close>, the quotient is finite and
  \<open>price_per_sqft \<times> a\<close> is the price up to a relative error of \<open>2\<^sup>-\<^sup>5\<^sup>3\<close> (of \<open>2\<^sup>-\<^sup>5\<^sup>1\<close> when
  the product is itself a float multiplication). In the heuristic branch
  \<open>price_per_sqft\<close> is the adjusted base, a finite float, the float product
  \<open>price_per_sqft \<times> a\<close> is the returned price itself, always, and the exact product is
  within \<open>2\<^sup>-\<^sup>5\<^sup>2\<close> of the price when its magnitude is in that range.
\<close>

theorem price_per_sqft_times_area:
  "f ''area_sqft'' = Some (Num a) \<Longrightarrow> 0 < a \<Longrightarrow>
     (all_slots_numeric f \<longrightarrow> (\<exists>r. predict est f = Inr r)) \<and>
     (\<forall>r. predict est f = Inr r \<longrightarrow>
        statistical est f = Inr r \<or> heuristic_prediction f = Inr r) \<and>
     (\<forall>r. statistical est f = Inr r \<longrightarrow> price_per_sqft r = fdiv (price r) (Fin a)) \<and>
     (\<forall>r p. statistical est f = Inr r \<and> price r = Fin p \<and> in_range p \<and> in_range (p / a) \<longrightarrow>
        (\<exists>q. price_per_sqft r = Fin q \<and> q = rnd (p / a) \<and>
             \<bar>q * a - p\<bar> \<le> \<bar>p\<bar> / 2 ^ 53 \<and>
             (\<exists>m. fmul (Fin q) (Fin a) = Fin m \<and> \<bar>m - p\<bar> \<le> \<bar>p\<bar> / 2 ^ 51))) \<and>
     (\<forall>r. heuristic_prediction f = Inr r \<longrightarrow>
        fmul (price_per_sqft r) (Fin a) = price r \<and>
        (\<exists>b. price_per_sqft r = Fin b \<and> adjusted_base f = Inr (Fin b) \<and>
             (in_range (b * a) \<longrightarrow>
                (\<exists>m. price r = Fin m \<and> \<bar>b * a - m\<bar> \<le> \<bar>m\<bar> / 2 ^ 52))))"
proof (intro conjI impI allI)
  assume "all_slots_numeric f"
  then show "\<exists>r. predict est f = Inr r"
    using heuristic_prediction_returns [of f] by (auto simp: predict_def split: sum.splits)
next
  fix r assume "predict est f = Inr r"
  then show "statistical est f = Inr r \<or> heuristic_prediction f = Inr r"
    by (rule predict_cases)
next
  fix r assume a: "f ''area_sqft'' = Some (Num a)" and s: "statistical est f = Inr r"
  from statistical_fields(4) [OF s] a
  show "price_per_sqft r = fdiv (price r) (Fin a)"
    by (simp add: np_divide_def)
next
  fix r p assume a: "f ''area_sqft'' = Some (Num a)" and pos: "0 < a"
    and h: "statistical est f = Inr r \<and> price r = Fin p \<and> in_range p \<and> in_range (p / a)"
  from h have s: "statistical est f = Inr r" and p: "price r = Fin p"
    and rp: "in_range p" and rq: "in_range (p / a)" by simp_all
  from statistical_fields(4) [OF s] a
  have "price_per_sqft r = fdiv (Fin p) (Fin a)"
    by (simp add: np_divide_def p)
  also have "\<dots> = to_float (p / a)" using pos by (simp add: fdiv.simps)
  also have "\<dots> = Fin (rnd (p / a))" by (rule in_range_to_float [OF rq])
  finally have q: "price_per_sqft r = Fin (rnd (p / a))" .
  note n = in_rangeD(3) [OF rq]
  show "\<exists>q. price_per_sqft r = Fin q \<and> q = rnd (p / a) \<and>
             \<bar>q * a - p\<bar> \<le> \<bar>p\<bar> / 2 ^ 53 \<and>
             (\<exists>m. fmul (Fin q) (Fin a) = Fin m \<and> \<bar>m - p\<bar> \<le> \<bar>p\<bar> / 2 ^ 51)"
    using q quotient_times_error [OF pos n] product_of_quotient_error [OF pos n rp]
    by blast
next
  fix r assume a: "f ''area_sqft'' = Some (Num a)"
    and h: "heuristic_prediction f = Inr r"
  from heuristic_prediction_fields(1) [OF h] a obtain v where
    v: "adjusted_base f = Inr v" "price r = fmul v (Fin a)" "price_per_sqft r = v"
    by auto
  from v(2,3) show "fmul (price_per_sqft r) (Fin a) = price r" by simp
  from adjusted_base_finite [OF v(1)] obtain b where b: "v = Fin b" ..
  have "in_range (b * a) \<longrightarrow> (\<exists>m. price r = Fin m \<and> \<bar>b * a - m\<bar> \<le> \<bar>m\<bar> / 2 ^ 52)"
  proof
    assume r: "in_range (b * a)"
    have "price r = Fin (rnd (b * a))"
      unfolding v(2) b fmul.simps by (rule in_range_to_float [OF r])
    moreover have "\<bar>b * a - rnd (b * a)\<bar> \<le> \<bar>rnd (b * a)\<bar> / 2 ^ 52"
      by (rule rounded_product_error [OF in_rangeD(3) [OF r]])
    ultimately show "\<exists>m. price r = Fin m \<and> \<bar>b * a - m\<bar> \<le> \<bar>m\<bar> / 2 ^ 52" by blast
  qed
  moreover have "price_per_sqft r = Fin b" "adjusted_base f = Inr (Fin b)"
    using v(1,3) b by simp_all
  ultimately
  show "\<exists>b. price_per_sqft r = Fin b \<and> adjusted_base f = Inr (Fin b) \<and>
             (in_range (b * a) \<longrightarrow>
                (\<exists>m. price r = Fin m \<and> \<bar>b * a - m\<bar> \<le> \<bar>m\<bar> / 2 ^ 52))"
    by (intro exI [of _ b] conjI)
qed

theorem price_per_sqft_times_area_witness:
  "chennai_features ''area_sqft'' = Some (Num 1000) \<and> (0::real) < 1000 \<and>
   all_slots_numeric chennai_features \<and> in_range 3 \<and> in_range (3 / 1000) \<and>
   (\<exists>r q m. predict (constant_estimator 3) chennai_features = Inr r \<and>
        statistical (constant_estimator 3) chennai_features = Inr r \<and>
        price r = Fin 3 \<and> price_per_sqft r = Fin q \<and> q = rnd (3 / 1000) \<and>
        \<bar>q * 1000 - 3\<bar> \<le> \<bar>3\<bar> / 2 ^ 53 \<and>
        fmul (Fin q) (Fin 1000) = Fin m \<and> \<bar>m - 3\<bar> \<le> \<bar>3\<bar> / 2 ^ 51) \<and>
   in_range ((5720 + 1 / 2 ^ 40) * 1000) \<and>
   (\<exists>r m. heuristic_prediction chennai_features = Inr r \<and>
        price_per_sqft r = Fin (5720 + 1 / 2 ^ 40) \<and>
        fmul (price_per_sqft r) (Fin 1000) = price r \<and>
        price r = Fin m \<and> \<bar>(5720 + 1 / 2 ^ 40) * 1000 - m\<bar> \<le> \<bar>m\<bar> / 2 ^ 52)"
proof -
  let ?r = "\<lparr>price = Fin 3, price_per_sqft = fdiv (Fin 3) (Fin 1000),
          confidence = calculate_confidence chennai_features,
          price_min = fsub (Fin 3) (fmul (Fin 3) (Fin (rnd 0.15))),
          price_max = fadd (Fin 3) (fmul (Fin 3) (Fin (rnd 0.15))),
          factors = [''location'' \<mapsto> ''high_value_area'',
                     ''infrastructure'' \<mapsto> ''well_developed'']\<rparr>"
  have a: "chennai_features ''area_sqft'' = Some (Num 1000)"
    by (simp add: chennai_features_def)
  have p: "(0::real) < 1000" by simp
  note c5 = price_per_sqft_times_area
    [where f = chennai_features and a = 1000 and est = "constant_estimator 3", OF a p]
  have s: "statistical (constant_estimator 3) chennai_features = Inr ?r"
    by (rule chennai_statistical)
  have pr: "predict (constant_estimator 3) chennai_features = Inr ?r"
    by (rule predict_statistical [OF s])
  have "statistical (constant_estimator 3) chennai_features = Inr ?r \<and> price ?r = Fin 3 \<and>
      in_range 3 \<and> in_range (3 / 1000)"
    using s in_range_examples(1,2) by simp
  with c5 have "\<exists>q. price_per_sqft ?r = Fin q \<and> q = rnd (3 / 1000) \<and>
             \<bar>q * 1000 - 3\<bar> \<le> \<bar>3\<bar> / 2 ^ 53 \<and>
             (\<exists>m. fmul (Fin q) (Fin 1000) = Fin m \<and> \<bar>m - 3\<bar> \<le> \<bar>3\<bar> / 2 ^ 51)"
    by blast
  then obtain q m where qm: "price_per_sqft ?r = Fin q" "q = rnd (3 / 1000)"
    "\<bar>q * 1000 - 3\<bar> \<le> \<bar>3\<bar> / 2 ^ 53" "fmul (Fin q) (Fin 1000) = Fin m"
    "\<bar>m - 3\<bar> \<le> \<bar>3\<bar> / 2 ^ 51" by blast
  have "price ?r = Fin 3" by simp
  with s pr qm have 1: "\<exists>r q m. predict (constant_estimator 3) chennai_features = Inr r \<and>
        statistical (constant_estimator 3) chennai_features = Inr r \<and>
        price r = Fin 3 \<and> price_per_sqft r = Fin q \<and> q = rnd (3 / 1000) \<and>
        \<bar>q * 1000 - 3\<bar> \<le> \<bar>3\<bar> / 2 ^ 53 \<and>
        fmul (Fin q) (Fin 1000) = Fin m \<and> \<bar>m - 3\<bar> \<le> \<bar>3\<bar> / 2 ^ 51"
    by blast
  obtain r where r: "heuristic_prediction chennai_features = Inr r"
    and pp: "price_per_sqft r = Fin (5720 + 1 / 2 ^ 40)"
    using chennai_heuristic by simp
  from c5 r have h: "fmul (price_per_sqft r) (Fin 1000) = price r"
    and "\<exists>b. price_per_sqft r = Fin b \<and> adjusted_base chennai_features = Inr (Fin b) \<and>
             (in_range (b * 1000) \<longrightarrow>
                (\<exists>m. price r = Fin m \<and> \<bar>b * 1000 - m\<bar> \<le> \<bar>m\<bar> / 2 ^ 52))"
    by blast+
  then obtain b where b: "price_per_sqft r = Fin b"
    "in_range (b * 1000) \<longrightarrow> (\<exists>m. price r = Fin m \<and> \<bar>b * 1000 - m\<bar> \<le> \<bar>m\<bar> / 2 ^ 52)"
    by blast
  from b(1) pp have "b = 5720 + 1 / 2 ^ 40" by simp
  with b(2) in_range_examples(3)
  obtain m where "price r = Fin m" "\<bar>(5720 + 1 / 2 ^ 40) * 1000 - m\<bar> \<le> \<bar>m\<bar> / 2 ^ 52"
    by blast
  with r pp h have 2: "\<exists>r m. heuristic_prediction chennai_features = Inr r \<and>
        price_per_sqft r = Fin (5720 + 1 / 2 ^ 40) \<and>
        fmul (price_per_sqft r) (Fin 1000) = price r \<and>
        price r = Fin m \<and> \<bar>(5720 + 1 / 2 ^ 40) * 1000 - m\<bar> \<le> \<bar>m\<bar> / 2 ^ 52"
    by blast
  from a p chennai_features_slots in_range_examples 1 2 show ?thesis
    by (intro conjI)
qed

text \<open>The price per unit area of the heuristic branch, from the base price.\<close>

lemma heuristic_price_per_sqft:
  assumes "heuristic_prediction f = Inr r"
  shows "price_per_sqft r =
      (let near_city = (get_less f ''distance_to_city'' 100 5 = Inr True);
           near_metro = (get_less f ''distance_to_metro'' 100 2 = Inr True);
           b1 = (if near_city then fmul (Fin (base_price f)) (Fin (rnd 1.3))
                 else Fin (base_price f));
           b2 = (if near_metro then fmul b1 (Fin (rnd 1.2)) else b1)
       in if truthy (f ''electricity'') \<and> truthy (f ''water_supply'')
          then fmul b2 (Fin (rnd 1.1)) else b2)"
    and "\<exists>a. f ''area_sqft'' = Some (Num a) \<and> price r = fmul (price_per_sqft r) (Fin a)"
proof -
  from heuristic_prediction_fields(1) [OF assms] obtain b a where
    b: "adjusted_base f = Inr b" "f ''area_sqft'' = Some (Num a)"
      "price r = fmul b (Fin a)" "price_per_sqft r = b" by blast
  from b(2,3,4)
  show "\<exists>a. f ''area_sqft'' = Some (Num a) \<and> price r = fmul (price_per_sqft r) (Fin a)"
    by simp
  from b(1) obtain nc nm where
    g: "get_less f ''distance_to_city'' 100 5 = Inr nc"
      "get_less f ''distance_to_metro'' 100 2 = Inr nm"
    unfolding adjusted_base_def bindE_Inr_iff by blast
  from b(1) show "price_per_sqft r =
      (let near_city = (get_less f ''distance_to_city'' 100 5 = Inr True);
           near_metro = (get_less f ''distance_to_metro'' 100 2 = Inr True);
           b1 = (if near_city then fmul (Fin (base_price f)) (Fin (rnd 1.3))
                 else Fin (base_price f));
           b2 = (if near_metro then fmul b1 (Fin (rnd 1.2)) else b1)
       in if truthy (f ''electricity'') \<and> truthy (f ''water_supply'')
          then fmul b2 (Fin (rnd 1.1)) else b2)"
    unfolding b(4) adjusted_base_def g by (auto simp: Let_def)
qed

lemma area_only_heuristic:
  "\<exists>r. heuristic_prediction area_only_features = Inr r \<and> price r = Fin 3000000"
  unfolding heuristic_prediction_def area_only_adjusted_base
  by (simp add: area_only_features_def mul_3000_1000 Let_def)

text \<open>
  Claim C10. Besides the thirteen numeric slots, the feature vector returned by
  \<^verbatim>\<open>create_features\<close> holds the strings \<open>state\<close> and \<open>district\<close>. On that vector the
  heuristic branch of \<^verbatim>\<open>predict\<close> returns, and the price per unit area of its result is
  the entry of the heuristic table at that state and district (2000 when there is none),
  multiplied by 1.3, 1.2 and 1.1 as the proximity and infrastructure tests direct; the
  price is that figure times the area. For every feature vector without the two keys the
  heuristic takes \<open>Kerala\<close> and \<open>Ernakulam\<close>: the base price is 3000, the price per unit
  area of every result is 3000 adjusted in the same way, and plainly 3000, not the
  default 2000, when no adjustment applies.
\<close>

theorem heuristic_reads_state_and_district:
  "let adjusted = (\<lambda>h b.
         (let near_city = (get_less h ''distance_to_city'' 100 5 = Inr True);
              near_metro = (get_less h ''distance_to_metro'' 100 2 = Inr True);
              b1 = (if near_city then fmul b (Fin (rnd 1.3)) else b);
              b2 = (if near_metro then fmul b1 (Fin (rnd 1.2)) else b1)
          in if truthy (h ''electricity'') \<and> truthy (h ''water_supply'')
             then fmul b2 (Fin (rnd 1.1)) else b2))
   in
   (create_features g a = Inr f \<longrightarrow>
      f ''state'' = Some (Str (state a)) \<and> f ''district'' = Some (Str (district a)) \<and>
      (\<exists>r. predict Untrained f = Inr r) \<and>
      (\<forall>r. predict Untrained f = Inr r \<longrightarrow>
         price_per_sqft r =
           adjusted f (Fin
             (case (case base_prices (state a) of None \<Rightarrow> Map.empty | Some m \<Rightarrow> m)
                     (district a) of
                None \<Rightarrow> 2000 | Some p \<Rightarrow> p)) \<and>
         price r = fmul (price_per_sqft r) (Fin (area_sqft a)))) \<and>
   (f' ''state'' = None \<and> f' ''district'' = None \<longrightarrow>
      base_price f' = 3000 \<and>
      (\<forall>r. predict Untrained f' = Inr r \<longrightarrow> price_per_sqft r = adjusted f' (Fin 3000)) \<and>
      (f' ''distance_to_city'' = None \<and> f' ''distance_to_metro'' = None \<and>
       f' ''electricity'' = None \<longrightarrow>
         (\<forall>r. predict Untrained f' = Inr r \<longrightarrow> price_per_sqft r = Fin 3000)))"
proof -
  have A: "f ''state'' = Some (Str (state a)) \<and> f ''district'' = Some (Str (district a)) \<and>
      (\<exists>r. predict Untrained f = Inr r) \<and>
      (\<forall>r. predict Untrained f = Inr r \<longrightarrow>
         price_per_sqft r =
           (let near_city = (get_less f ''distance_to_city'' 100 5 = Inr True);
              near_metro = (get_less f ''distance_to_metro'' 100 2 = Inr True);
              b1 = (if near_city
                then fmul (Fin (case (case base_prices (state a) of
                        None \<Rightarrow> Map.empty | Some m \<Rightarrow> m) (district a) of
                     None \<Rightarrow> 2000 | Some p \<Rightarrow> p)) (Fin (rnd 1.3))
                else Fin (case (case base_prices (state a) of
                        None \<Rightarrow> Map.empty | Some m \<Rightarrow> m) (district a) of
                     None \<Rightarrow> 2000 | Some p \<Rightarrow> p));
              b2 = (if near_metro then fmul b1 (Fin (rnd 1.2)) else b1)
          in if truthy (f ''electricity'') \<and> truthy (f ''water_supply'')
             then fmul b2 (Fin (rnd 1.1)) else b2) \<and>
         price r = fmul (price_per_sqft r) (Fin (area_sqft a)))"
    if cf: "create_features g a = Inr f"
  proof (intro conjI allI impI)
    show sd: "f ''state'' = Some (Str (state a))" "f ''district'' = Some (Str (district a))"
      by (rule create_features_direct [OF cf])+
    show "\<exists>r. predict Untrained f = Inr r"
      unfolding predict_untrained
      by (rule heuristic_prediction_returns [OF create_features_slots [OF cf]])
    fix r assume "predict Untrained f = Inr r"
    then have h: "heuristic_prediction f = Inr r" by (simp only: predict_untrained)
    have bp: "base_price f =
        (case (case base_prices (state a) of None \<Rightarrow> Map.empty | Some m \<Rightarrow> m) (district a) of
           None \<Rightarrow> 2000 | Some p \<Rightarrow> p)"
      using sd by (simp add: base_price_def)
    show "price_per_sqft r =
           (let near_city = (get_less f ''distance_to_city'' 100 5 = Inr True);
              near_metro = (get_less f ''distance_to_metro'' 100 2 = Inr True);
              b1 = (if near_city
                then fmul (Fin (case (case base_prices (state a) of
                        None \<Rightarrow> Map.empty | Some m \<Rightarrow> m) (district a) of
                     None \<Rightarrow> 2000 | Some p \<Rightarrow> p)) (Fin (rnd 1.3))
                else Fin (case (case base_prices (state a) of
                        None \<Rightarrow> Map.empty | Some m \<Rightarrow> m) (district a) of
                     None \<Rightarrow> 2000 | Some p \<Rightarrow> p));
              b2 = (if near_metro then fmul b1 (Fin (rnd 1.2)) else b1)
          in if truthy (f ''electricity'') \<and> truthy (f ''water_supply'')
             then fmul b2 (Fin (rnd 1.1)) else b2)"
      using heuristic_price_per_sqft(1) [OF h] unfolding bp .
    from heuristic_price_per_sqft(2) [OF h] create_features_direct(7) [OF cf]
    show "price r = fmul (price_per_sqft r) (Fin (area_sqft a))" by auto
  qed
  have B: "base_price f' = 3000 \<and>
      (\<forall>r. predict Untrained f' = Inr r \<longrightarrow> price_per_sqft r =
         (let near_city = (get_less f' ''distance_to_city'' 100 5 = Inr True);
              near_metro = (get_less f' ''distance_to_metro'' 100 2 = Inr True);
              b1 = (if near_city then fmul (Fin 3000) (Fin (rnd 1.3)) else Fin 3000);
              b2 = (if near_metro then fmul b1 (Fin (rnd 1.2)) else b1)
          in if truthy (f' ''electricity'') \<and> truthy (f' ''water_supply'')
             then fmul b2 (Fin (rnd 1.1)) else b2)) \<and>
      (f' ''distance_to_city'' = None \<and> f' ''distance_to_metro'' = None \<and>
       f' ''electricity'' = None \<longrightarrow>
         (\<forall>r. predict Untrained f' = Inr r \<longrightarrow> price_per_sqft r = Fin 3000))"
    if k: "f' ''state'' = None \<and> f' ''district'' = None"
  proof (intro conjI allI impI)
    show bp: "base_price f' = 3000"
      using k by (simp add: base_price_def base_prices_def)
    {
      fix r assume "predict Untrained f' = Inr r"
      then have h: "heuristic_prediction f' = Inr r" by (simp only: predict_untrained)
      show "price_per_sqft r =
         (let near_city = (get_less f' ''distance_to_city'' 100 5 = Inr True);
              near_metro = (get_less f' ''distance_to_metro'' 100 2 = Inr True);
              b1 = (if near_city then fmul (Fin 3000) (Fin (rnd 1.3)) else Fin 3000);
              b2 = (if near_metro then fmul b1 (Fin (rnd 1.2)) else b1)
          in if truthy (f' ''electricity'') \<and> truthy (f' ''water_supply'')
             then fmul b2 (Fin (rnd 1.1)) else b2)"
        using heuristic_price_per_sqft(1) [OF h] unfolding bp .
    }
    note gen = this
    fix r
    assume n: "f' ''distance_to_city'' = None \<and> f' ''distance_to_metro'' = None \<and>
       f' ''electricity'' = None"
      and p: "predict Untrained f' = Inr r"
    from gen [OF p] n show "price_per_sqft r = Fin 3000"
      by (simp add: get_less_def Let_def)
  qed
  from A B show ?thesis unfolding Let_def by blast
qed

theorem heuristic_reads_state_and_district_witness:
  "create_features None chennai_request = Inr chennai_features \<and>
   chennai_features ''state'' = Some (Str ''Tamil Nadu'') \<and>
   chennai_features ''district'' = Some (Str ''Chennai'') \<and>
   (\<exists>r. predict Untrained chennai_features = Inr r \<and>
        price_per_sqft r = fmul (fmul (Fin 4000) (Fin (rnd 1.3))) (Fin (rnd 1.1)) \<and>
        price r = fmul (price_per_sqft r) (Fin 1000)) \<and>
   area_only_features ''state'' = None \<and> area_only_features ''district'' = None \<and>
   area_only_features ''distance_to_city'' = None \<and>
   area_only_features ''distance_to_metro'' = None \<and>
   area_only_features ''electricity'' = None \<and>
   (\<exists>r. predict Untrained area_only_features = Inr r \<and>
        price_per_sqft r = Fin 3000 \<and> price r = Fin 3000000)"
proof -
  note t = heuristic_reads_state_and_district
    [of None chennai_request chennai_features area_only_features, unfolded Let_def]
  have k: "area_only_features ''state'' = None" "area_only_features ''district'' = None"
    "area_only_features ''distance_to_city'' = None"
    "area_only_features ''distance_to_metro'' = None"
    "area_only_features ''electricity'' = None"
    by (simp_all add: area_only_features_def)
  from t chennai_create have
    sd: "chennai_features ''state'' = Some (Str (state chennai_request))"
      "chennai_features ''district'' = Some (Str (district chennai_request))"
    and ex: "\<exists>r. predict Untrained chennai_features = Inr r"
    by blast+
  from ex obtain r where r: "predict Untrained chennai_features = Inr r" ..
  note at_chennai = t [THEN conjunct1, THEN mp, OF chennai_create, THEN conjunct2,
      THEN conjunct2, THEN conjunct2, rule_format, OF r]
  from at_chennai
  have "price_per_sqft r = fmul (fmul (Fin 4000) (Fin (rnd 1.3))) (Fin (rnd 1.1))"
    by (simp add: chennai_features_def get_less_def chennai_request_def base_prices_def)
  moreover from at_chennai have "price r = fmul (price_per_sqft r) (Fin 1000)"
    by (simp add: chennai_request_def)
  ultimately have 1: "\<exists>r. predict Untrained chennai_features = Inr r \<and>
        price_per_sqft r = fmul (fmul (Fin 4000) (Fin (rnd 1.3))) (Fin (rnd 1.1)) \<and>
        price r = fmul (price_per_sqft r) (Fin 1000)"
    using r by blast
  obtain r' where r': "heuristic_prediction area_only_features = Inr r'"
    "price r' = Fin 3000000"
    using area_only_heuristic by blast
  from r'(1) have p': "predict Untrained area_only_features = Inr r'"
    by (simp only: predict_untrained)
  from t k p' have "price_per_sqft r' = Fin 3000" by blast
  with p' r'(2) have 2: "\<exists>r. predict Untrained area_only_features = Inr r \<and>
        price_per_sqft r = Fin 3000 \<and> price r = Fin 3000000"
    by blast
  from sd have sd': "chennai_features ''state'' = Some (Str ''Tamil Nadu'')"
    "chennai_features ''district'' = Some (Str ''Chennai'')"
    by (simp_all add: chennai_request_def)
  from chennai_create sd' 1 k 2 show ?thesis by (intro conjI)
qed


end
